theory Spec2Isabelle
  imports Complex_Main "HOL-Library.Multiset"
begin

section \<open>Tables, errors and collaborators\<close>

text \<open>
  The presentation model of \<^verbatim>\<open>mhcflurry/antigen_presentation/presentation_model.py\<close>
  works on pandas data frames. A frame is modelled column by column, in column order: a
  column is its name and its values. Every frame the code builds carries the default
  positional index (\<^verbatim>\<open>reset_index(drop=True)\<close>, \<^verbatim>\<open>ignore_index=True\<close>,
  \<^verbatim>\<open>pandas.DataFrame()\<close>), so a row is identified by its position. A value is a number,
  a string, or missing (\<^verbatim>\<open>NaN\<close> / \<^verbatim>\<open>None\<close>). Floating-point numbers are idealised
  as rationals.
\<close>

datatype cell = Num rat | Str string | Null

type_synonym dataframe = "(string \<times> cell list) list"

text \<open>
  Python exceptions that the modelled code can raise. An assertion error carries the names
  that its message reports (an expression, column names, dictionary keys), if any; \<open>EvalError\<close>
  stands for whatever evaluating a feature expression raises.
\<close>

datatype error =
    AssertionError "string list"
  | NotImplementedError
  | KeyError string
  | ValueError
  | TypeError
  | IndexError
  | AttributeError
  | EvalError

text \<open>
  A component model is a duck-typed collaborator: the code only calls its methods. Each
  method is a field; \<^verbatim>\<open>clone_and_fit\<close> and \<^verbatim>\<open>clone_and_restore_fit\<close> return
  another component model, so the type is coinductive (an object is what its methods
  answer). \<open>'b\<close> is the type of a component model's fit parameters.
\<close>

codatatype 'b component_model = ComponentModel
  (column_names: "string list")
  (requires_fitting: bool)
  (clone_and_fit: "dataframe \<Rightarrow> 'b component_model")
  (predict_cm: "dataframe \<Rightarrow> (string \<times> cell list) list")
  (get_fit_cm: 'b)
  (clone_and_restore_fit: "'b \<Rightarrow> 'b component_model")

text \<open>
  The final predictor (scikit-learn's \<^verbatim>\<open>LogisticRegression\<close> by default). The code
  uses the configured predictor only through \<^verbatim>\<open>clone(p).fit(x, y)\<close>, and a fitted one
  only through \<^verbatim>\<open>predict_proba(x)[:, 1]\<close>, the probability of the positive class for
  each row of the matrix \<^verbatim>\<open>x\<close> (a list of rows).
\<close>

datatype fitted_predictor = FittedPredictor
  (predict_proba1: "cell list list \<Rightarrow> rat list")

datatype predictor = Predictor
  (clone_fit: "cell list list \<Rightarrow> cell list \<Rightarrow> fitted_predictor")

text \<open>A decoy strategy is its \<^verbatim>\<open>decoys\<close> method.\<close>

type_synonym decoy_strategy = "dataframe \<Rightarrow> dataframe"

record 'b presentation_model =
  component_models :: "'b component_model list"
  component_models_require_fitting :: bool
  ensemble_size :: "nat option"
  feature_expressions :: "string list"
  decoy_strategy :: "decoy_strategy option"
  random_state :: nat
  predictor :: predictor
  trained_component_models :: "'b component_model list list option"
  presentation_models_predictors :: "fitted_predictor list option"
  fit_experiments :: "cell set option"

section \<open>Construction\<close>

text \<open>
  The loop of \<^verbatim>\<open>PresentationModel.__init__\<close>: \<open>columns\<close> is the set of column names
  seen so far, \<open>rf\<close> the flag \<^verbatim>\<open>component_models_require_fitting\<close>.
\<close>

fun init_loop :: "'b component_model list \<Rightarrow> string set \<Rightarrow> bool \<Rightarrow> error + bool" where
  "init_loop [] columns rf = Inr rf"
| "init_loop (component_model # rest) columns rf =
     (let model_cols = column_names component_model in
      if columns \<inter> set model_cols \<noteq> {} then Inl (AssertionError model_cols)
      else init_loop rest (columns \<union> set model_cols)
             (if requires_fitting component_model then True else rf))"

definition init ::
  "'b component_model list \<Rightarrow> string list \<Rightarrow> decoy_strategy option \<Rightarrow> predictor \<Rightarrow> nat \<Rightarrow>
   nat option \<Rightarrow> error + 'b presentation_model" where
  "init cms exprs ds p rs es =
     (case init_loop cms {} False of
        Inl e \<Rightarrow> Inl e
      | Inr rf \<Rightarrow> Inr \<lparr>component_models = cms,
                       component_models_require_fitting = rf,
                       ensemble_size = es,
                       feature_expressions = exprs,
                       decoy_strategy = ds,
                       random_state = rs,
                       predictor = p,
                       trained_component_models = None,
                       presentation_models_predictors = None,
                       fit_experiments = None\<rparr>)"

definition has_been_fit :: "'b presentation_model \<Rightarrow> bool" where
  "has_been_fit m = (fit_experiments m \<noteq> None)"

section \<open>Data frame operations\<close>

text \<open>\<^verbatim>\<open>len(df)\<close>: the number of rows; a frame without columns has none.\<close>

definition len_df :: "dataframe \<Rightarrow> nat" where
  "len_df df = (case df of [] \<Rightarrow> 0 | (c, vs) # rest \<Rightarrow> length vs)"

text \<open>\<^verbatim>\<open>c in df.columns\<close>.\<close>

definition has_column :: "dataframe \<Rightarrow> string \<Rightarrow> bool" where
  "has_column df c = (c \<in> set (map fst df))"

text \<open>\<^verbatim>\<open>df[c]\<close> as a read: \<^verbatim>\<open>KeyError\<close> when the column is absent.\<close>

definition column :: "dataframe \<Rightarrow> string \<Rightarrow> error + cell list" where
  "column df c = (case map_of df c of None \<Rightarrow> Inl (KeyError c) | Some vs \<Rightarrow> Inr vs)"

text \<open>
  Storing a column: an existing column is replaced where it stands, a new one is appended.
\<close>

fun set_col :: "dataframe \<Rightarrow> string \<Rightarrow> cell list \<Rightarrow> dataframe" where
  "set_col [] c vs = [(c, vs)]"
| "set_col ((c', vs') # rest) c vs =
     (if c' = c then (c, vs) # rest else (c', vs') # set_col rest c vs)"

text \<open>
  \<^verbatim>\<open>df[c] = array\<close>: positional; pandas raises \<^verbatim>\<open>ValueError\<close> when the length is
  not the frame's, except on the empty \<^verbatim>\<open>DataFrame()\<close>, which takes the array's length.
\<close>

definition assign_array :: "dataframe \<Rightarrow> string \<Rightarrow> cell list \<Rightarrow> error + dataframe" where
  "assign_array df c vs =
     (if df \<noteq> [] \<and> length vs \<noteq> len_df df then Inl ValueError else Inr (set_col df c vs))"

text \<open>
  \<^verbatim>\<open>df[c] = pandas.Series(values)\<close>: aligned on the positional index, so a longer
  series is cut and a shorter one is padded with missing values; the empty
  \<^verbatim>\<open>DataFrame()\<close> takes the series as it is.
\<close>

definition assign_series :: "dataframe \<Rightarrow> string \<Rightarrow> cell list \<Rightarrow> dataframe" where
  "assign_series df c vs =
     (if df = [] then [(c, vs)]
      else set_col df c (take (len_df df) vs @ replicate (len_df df - length vs) Null))"

text \<open>\<^verbatim>\<open>df[c] = scalar\<close>.\<close>

definition assign_scalar :: "dataframe \<Rightarrow> string \<Rightarrow> cell \<Rightarrow> dataframe" where
  "assign_scalar df c v = set_col df c (replicate (len_df df) v)"

text \<open>\<^verbatim>\<open>del df[c]\<close> on a column that is present.\<close>

definition del_col :: "dataframe \<Rightarrow> string \<Rightarrow> dataframe" where
  "del_col df c = filter (\<lambda>(c', vs). c' \<noteq> c) df"

text \<open>The rows at the given positions, in that order.\<close>

definition select_rows :: "dataframe \<Rightarrow> nat list \<Rightarrow> dataframe" where
  "select_rows df idx = map (\<lambda>(c, vs). (c, map (\<lambda>i. vs ! i) idx)) df"

text \<open>\<^verbatim>\<open>df.iloc[idx]\<close> with an array of positions: \<^verbatim>\<open>IndexError\<close> out of range.\<close>

definition iloc :: "dataframe \<Rightarrow> nat list \<Rightarrow> error + dataframe" where
  "iloc df idx =
     (if list_all (\<lambda>i. i < len_df df) idx then Inr (select_rows df idx) else Inl IndexError)"

text \<open>Row \<open>i\<close> of a frame, and \<^verbatim>\<open>df.values\<close>, the matrix of its rows.\<close>

definition df_row :: "dataframe \<Rightarrow> nat \<Rightarrow> cell list" where
  "df_row df i = map (\<lambda>(c, vs). vs ! i) df"

definition df_values :: "dataframe \<Rightarrow> cell list list" where
  "df_values df = map (df_row df) [0..<len_df df]"

text \<open>
  \<^verbatim>\<open>pandas.concat([a, b], ignore_index=True)\<close>: the rows of \<open>a\<close>, then those of
  \<open>b\<close>, over the union of the columns; a column that one frame lacks is missing there.
  Columns are kept in order of first appearance (the code reads columns by name only).
\<close>

definition concat_df :: "dataframe \<Rightarrow> dataframe \<Rightarrow> dataframe" where
  "concat_df a b =
     map (\<lambda>c. (c, (case map_of a c of Some vs \<Rightarrow> vs | None \<Rightarrow> replicate (len_df a) Null) @
                  (case map_of b c of Some vs \<Rightarrow> vs | None \<Rightarrow> replicate (len_df b) Null)))
         (map fst a @ filter (\<lambda>c. c \<notin> set (map fst a)) (map fst b))"

section \<open>Helpers of \<^verbatim>\<open>mhcflurry.common\<close>\<close>

text \<open>
  Modelled from the spec: \<^verbatim>\<open>assert_no_null\<close> is imported from
  \<^verbatim>\<open>mhcflurry/common.py\<close>, which is not among the sources. The spec's contract for the
  feature expression evaluator is "no missing values -- failing with an explicit error
  naming the offending expression if any output is missing": the helper raises an
  assertion error, carrying the message it was given, when a value is missing.
\<close>

definition assert_no_null :: "cell list \<Rightarrow> string list \<Rightarrow> error + unit" where
  "assert_no_null vs message = (if Null \<in> set vs then Inl (AssertionError message) else Inr ())"

text \<open>
  Modelled from the spec: the same helper \<^verbatim>\<open>assert_no_null\<close> of
  \<^verbatim>\<open>mhcflurry/common.py\<close>, applied to a whole frame (\<^verbatim>\<open>assert_no_null(x_df)\<close>): it
  raises when any column holds a missing value.
\<close>

definition assert_no_null_df :: "dataframe \<Rightarrow> string list \<Rightarrow> error + unit" where
  "assert_no_null_df df message =
     (if list_ex (\<lambda>(c, vs). Null \<in> set vs) df then Inl (AssertionError message) else Inr ())"

text \<open>
  What the code logs: warnings, and the calls it makes to the component models during a
  fit, each with the model that is called and the table it is given.
\<close>

datatype 'b event =
    Warning_dropped_rows "nat list"
  | Warning_feature_expressions "string list" "string list"
  | Call_clone_and_fit "'b component_model" dataframe
  | Call_predict "'b component_model" dataframe

text \<open>Row \<open>i\<close> of a frame holds a missing value.\<close>

definition row_has_null :: "dataframe \<Rightarrow> nat \<Rightarrow> bool" where
  "row_has_null df i = (Null \<in> set (df_row df i))"

text \<open>
  Modelled from the spec: \<^verbatim>\<open>drop_nulls_and_warn\<close> is imported from
  \<^verbatim>\<open>mhcflurry/common.py\<close>, which is not among the sources. The spec: "rows whose
  evaluated feature expressions contain missing values are dropped, with a count/identity
  logged". The helper returns the frame without the rows that hold a missing value, and
  logs a warning naming the dropped rows when there are any. (Its second argument, a frame
  with the same index, only serves to describe the dropped rows in the warning.)
\<close>

definition drop_nulls_and_warn :: "dataframe \<Rightarrow> dataframe \<times> 'b event list" where
  "drop_nulls_and_warn df =
     (let dropped = filter (\<lambda>i. row_has_null df i) [0..<len_df df];
          kept = filter (\<lambda>i. \<not> row_has_null df i) [0..<len_df df]
      in if dropped \<noteq> [] then (select_rows df kept, [Warning_dropped_rows dropped])
         else (df, []))"

section \<open>Hits and decoys\<close>

definition make_hits_and_decoys_df :: "dataframe \<Rightarrow> decoy_strategy \<Rightarrow> dataframe" where
  "make_hits_and_decoys_df hits_df ds =
     (let hits_df = assign_scalar hits_df ''hit'' (Num 1);
          decoys_df = ds hits_df;
          decoys_df = assign_scalar decoys_df ''hit'' (Num 0)
      in concat_df hits_df decoys_df)"

section \<open>Feature expressions\<close>

text \<open>
  \<^verbatim>\<open>eval(expression, numpy.__dict__, input_df)\<close> is Python's own evaluator: it is a
  parameter \<open>ev\<close>, which gives the values of an expression on a frame or raises.
\<close>

type_synonym evaluator = "string \<Rightarrow> dataframe \<Rightarrow> error + cell list"

fun evaluate_loop ::
  "evaluator \<Rightarrow> string list \<Rightarrow> dataframe \<Rightarrow> dataframe \<Rightarrow> error + dataframe" where
  "evaluate_loop ev [] input_df result = Inr result"
| "evaluate_loop ev (expression # rest) input_df result =
     (case ev expression input_df of
        Inl e \<Rightarrow> Inl e
      | Inr values \<Rightarrow>
          if length values \<noteq> len_df input_df then Inl (AssertionError [expression])
          else (case assert_no_null values [expression] of
                  Inl e \<Rightarrow> Inl e
                | Inr u \<Rightarrow> evaluate_loop ev rest input_df (assign_series result expression values)))"

definition evaluate_expressions ::
  "evaluator \<Rightarrow> 'b presentation_model \<Rightarrow> dataframe \<Rightarrow> error + dataframe" where
  "evaluate_expressions ev m input_df =
     (case evaluate_loop ev (feature_expressions m) input_df [] of
        Inl e \<Rightarrow> Inl e
      | Inr result \<Rightarrow>
          if len_df result \<noteq> len_df input_df then Inl (AssertionError []) else Inr result)"

definition make_features_and_target ::
  "evaluator \<Rightarrow> 'b presentation_model \<Rightarrow> dataframe \<Rightarrow>
   (error + (dataframe \<times> cell list)) \<times> 'b event list" where
  "make_features_and_target ev m hits_and_decoys_df =
     (if \<not> has_column hits_and_decoys_df ''peptide'' then (Inl (AssertionError []), [])
      else if \<not> has_column hits_and_decoys_df ''hit'' then (Inl (AssertionError []), [])
      else case evaluate_expressions ev m hits_and_decoys_df of
        Inl e \<Rightarrow> (Inl e, [])
      | Inr df \<Rightarrow>
         (case column hits_and_decoys_df ''hit'' of
            Inl e \<Rightarrow> (Inl e, [])
          | Inr hit \<Rightarrow>
             (case assign_array df ''hit'' hit of
                Inl e \<Rightarrow> (Inl e, [])
              | Inr df \<Rightarrow>
                 (case drop_nulls_and_warn df of
                    (new_df, warnings) \<Rightarrow>
                      (case column new_df ''hit'' of
                         Inl e \<Rightarrow> (Inl e, warnings)
                       | Inr y \<Rightarrow> (Inr (del_col new_df ''hit'', y), warnings))))))"

section \<open>Fitting\<close>

text \<open>The inner loop of \<^verbatim>\<open>fit_final_predictor\<close>: \<^verbatim>\<open>hits_and_decoys_df[col] = values\<close>.\<close>

fun assign_all :: "dataframe \<Rightarrow> (string \<times> cell list) list \<Rightarrow> error + dataframe" where
  "assign_all df [] = Inr df"
| "assign_all df ((col, values) # rest) =
     (case assign_array df col values of Inl e \<Rightarrow> Inl e | Inr df' \<Rightarrow> assign_all df' rest)"

text \<open>Its outer loop: every sub-model predicts on the table as it stands.\<close>

fun predict_into ::
  "'b component_model list \<Rightarrow> dataframe \<Rightarrow> (error + dataframe) \<times> 'b event list" where
  "predict_into [] df = (Inr df, [])"
| "predict_into (sub_model # rest) df =
     (case assign_all df (predict_cm sub_model df) of
        Inl e \<Rightarrow> (Inl e, [Call_predict sub_model df])
      | Inr df' \<Rightarrow>
          (case predict_into rest df' of (r, evs) \<Rightarrow> (r, Call_predict sub_model df # evs)))"

definition fit_final_predictor ::
  "evaluator \<Rightarrow> 'b presentation_model \<Rightarrow> dataframe \<Rightarrow> 'b component_model list \<Rightarrow>
   (error + fitted_predictor) \<times> 'b event list" where
  "fit_final_predictor ev m hits_df cms =
     (case decoy_strategy m of
        None \<Rightarrow> (Inl AttributeError, [])
      | Some ds \<Rightarrow>
         (case predict_into cms (make_hits_and_decoys_df hits_df ds) of
            (Inl e, evs) \<Rightarrow> (Inl e, evs)
          | (Inr hits_and_decoys_df, evs) \<Rightarrow>
             (case make_features_and_target ev m hits_and_decoys_df of
                (Inl e, warnings) \<Rightarrow> (Inl e, evs @ warnings)
              | (Inr (x, y), warnings) \<Rightarrow>
                  (Inr (clone_fit (predictor m) (df_values x) y), evs @ warnings))))"

text \<open>
  \<^verbatim>\<open>StratifiedKFold(n_splits=2, shuffle=True, random_state=...).split(hits_df, y)\<close>
  belongs to scikit-learn: it is a parameter, which gives for a random state and the
  stratification labels the list of (train, test) position arrays, or raises.
\<close>

type_synonym splitter = "nat \<Rightarrow> cell list \<Rightarrow> error + (nat list \<times> nat list) list"

text \<open>
  The body of the two-fold loop for one \<^verbatim>\<open>(fold1, fold2)\<close>, and the loop. The state is
  returned also when an exception leaves the loop, as the object keeps what was assigned.
  The models handed to \<^verbatim>\<open>fit_final_predictor\<close> are
  \<^verbatim>\<open>self.trained_component_models[-1]\<close>, the last list of the attribute.
\<close>

definition fit_fold ::
  "evaluator \<Rightarrow> 'b presentation_model \<Rightarrow> dataframe \<Rightarrow> nat list \<times> nat list \<Rightarrow>
   (error + unit) \<times> 'b presentation_model \<times> 'b event list" where
  "fit_fold ev m hits_df folds =
     (case folds of (fold1, fold2) \<Rightarrow>
      if \<not> length fold1 > 0 then (Inl (AssertionError []), m, [])
      else if \<not> length fold2 > 0 then (Inl (AssertionError []), m, [])
      else case iloc hits_df fold1 of
        Inl e \<Rightarrow> (Inl e, m, [])
      | Inr model_input_training_hits_df \<Rightarrow>
         (case trained_component_models m of
            None \<Rightarrow> (Inl AttributeError, m, [])
          | Some tcm \<Rightarrow>
             (let sub_models = map (\<lambda>sub_model. clone_and_fit sub_model model_input_training_hits_df)
                                 (component_models m);
                  calls = map (\<lambda>sub_model. Call_clone_and_fit sub_model model_input_training_hits_df)
                            (component_models m);
                  tcm = tcm @ [sub_models];
                  m = m\<lparr>trained_component_models := Some tcm\<rparr>
              in case iloc hits_df fold2 of
                   Inl e \<Rightarrow> (Inl e, m, calls)
                 | Inr final_hits_df \<Rightarrow>
                    (case fit_final_predictor ev m final_hits_df (last tcm) of
                       (Inl e, evs) \<Rightarrow> (Inl e, m, calls @ evs)
                     | (Inr final_predictor, evs) \<Rightarrow>
                        (case presentation_models_predictors m of
                           None \<Rightarrow> (Inl AttributeError, m, calls @ evs)
                         | Some ps \<Rightarrow>
                            (Inr (),
                             m\<lparr>presentation_models_predictors := Some (ps @ [final_predictor])\<rparr>,
                             calls @ evs))))))"

fun fit_folds ::
  "evaluator \<Rightarrow> 'b presentation_model \<Rightarrow> dataframe \<Rightarrow> (nat list \<times> nat list) list \<Rightarrow>
   (error + unit) \<times> 'b presentation_model \<times> 'b event list" where
  "fit_folds ev m hits_df [] = (Inr (), m, [])"
| "fit_folds ev m hits_df (folds # rest) =
     (case fit_fold ev m hits_df folds of
        (Inl e, m', evs) \<Rightarrow> (Inl e, m', evs)
      | (Inr u, m', evs) \<Rightarrow>
          (case fit_folds ev m' hits_df rest of (r, m'', evs') \<Rightarrow> (r, m'', evs @ evs')))"

text \<open>The end of \<^verbatim>\<open>fit\<close>: the last assertion, then the decoy strategy is dropped.\<close>

definition fit_finish ::
  "'b presentation_model \<Rightarrow> 'b event list \<Rightarrow>
   (error + unit) \<times> 'b presentation_model \<times> 'b event list" where
  "fit_finish m evs =
     (case (presentation_models_predictors m, trained_component_models m) of
        (Some ps, Some tcm) \<Rightarrow>
          if length ps \<noteq> length tcm then (Inl (AssertionError []), m, evs)
          else (Inr (), m\<lparr>decoy_strategy := None\<rparr>, evs)
      | _ \<Rightarrow> (Inl TypeError, m, evs))"

definition fit ::
  "splitter \<Rightarrow> evaluator \<Rightarrow> 'b presentation_model \<Rightarrow> dataframe \<Rightarrow>
   (error + unit) \<times> 'b presentation_model \<times> 'b event list" where
  "fit skf ev m hits_df =
     (if has_been_fit m then (Inl (AssertionError []), m, [])
      else if \<not> has_column hits_df ''experiment_name'' then (Inl (AssertionError []), m, [])
      else if \<not> has_column hits_df ''peptide'' then (Inl (AssertionError []), m, [])
      else if trained_component_models m \<noteq> None then (Inl (AssertionError []), m, [])
      else if presentation_models_predictors m \<noteq> None then (Inl (AssertionError []), m, [])
      else case column hits_df ''experiment_name'' of
        Inl e \<Rightarrow> (Inl e, m, [])
      | Inr experiment_name \<Rightarrow>
         (let m = m\<lparr>fit_experiments := Some (set experiment_name)\<rparr> in
          if component_models_require_fitting m \<and>
             (ensemble_size m = None \<or> ensemble_size m = Some 0) then
            (let m = m\<lparr>trained_component_models := Some [],
                       presentation_models_predictors := Some []\<rparr>
             in case skf (random_state m) experiment_name of
                  Inl e \<Rightarrow> (Inl e, m, [])
                | Inr splits \<Rightarrow>
                   (case fit_folds ev m hits_df splits of
                      (Inl e, m', evs) \<Rightarrow> (Inl e, m', evs)
                    | (Inr u, m', evs) \<Rightarrow> fit_finish m' evs))
          else if component_models_require_fitting m then (Inl NotImplementedError, m, [])
          else
            (case fit_final_predictor ev m hits_df (component_models m) of
               (Inl e, evs) \<Rightarrow> (Inl e, m, evs)
             | (Inr final_predictor, evs) \<Rightarrow>
                 if presentation_models_predictors m \<noteq> None \<and>
                    presentation_models_predictors m \<noteq> Some []
                 then (Inl (AssertionError []), m, evs)
                 else fit_finish
                        (m\<lparr>presentation_models_predictors := Some [final_predictor],
                           trained_component_models := Some [component_models m]\<rparr>) evs)))"

section \<open>Prediction\<close>

text \<open>
  The inner loop of \<^verbatim>\<open>predict_to_df\<close>: each predicted column becomes a series, must
  hold no missing value, and is stored in the frame of component outputs.
\<close>

fun collect_columns :: "dataframe \<Rightarrow> (string \<times> cell list) list \<Rightarrow> error + dataframe" where
  "collect_columns df [] = Inr df"
| "collect_columns df ((col, values) # rest) =
     (case assert_no_null values [] of
        Inl e \<Rightarrow> Inl e
      | Inr u \<Rightarrow> collect_columns (assign_series df col values) rest)"

text \<open>The loop over the sub-models of one fold; \<open>df\<close> starts as \<^verbatim>\<open>pandas.DataFrame()\<close>.\<close>

fun component_outputs ::
  "'b component_model list \<Rightarrow> dataframe \<Rightarrow> dataframe \<Rightarrow> error + dataframe" where
  "component_outputs [] peptides_df df = Inr df"
| "component_outputs (sub_model # rest) peptides_df df =
     (case collect_columns df (predict_cm sub_model peptides_df) of
        Inl e \<Rightarrow> Inl e
      | Inr df' \<Rightarrow> component_outputs rest peptides_df df')"

text \<open>The features \<^verbatim>\<open>x_df\<close> that one fold's predictor is given for a table.\<close>

definition fold_features ::
  "evaluator \<Rightarrow> 'b presentation_model \<Rightarrow> 'b component_model list \<Rightarrow> dataframe \<Rightarrow>
   error + dataframe" where
  "fold_features ev m cms peptides_df =
     (case component_outputs cms peptides_df [] of
        Inl e \<Rightarrow> Inl e
      | Inr df \<Rightarrow>
         (case evaluate_expressions ev m df of
            Inl e \<Rightarrow> Inl e
          | Inr x_df \<Rightarrow>
             (case assert_no_null_df x_df [] of Inl e \<Rightarrow> Inl e | Inr u \<Rightarrow> Inr x_df)))"

text \<open>Decimal digits of a number, for \<^verbatim>\<open>"Prediction (Model %d)" % (i + 1)\<close>.\<close>

fun digit_string :: "nat \<Rightarrow> string" where
  "digit_string n =
     (if n < 10 then [''0123456789'' ! n]
      else digit_string (n div 10) @ [''0123456789'' ! (n mod 10)])"

declare digit_string.simps [simp del]

definition prediction_col_name :: "nat \<Rightarrow> string" where
  "prediction_col_name i = ''Prediction (Model '' @ digit_string (i + 1) @ '')''"

text \<open>
  The main loop of \<^verbatim>\<open>predict_to_df\<close> over the stored (component models, predictor)
  pairs; \<open>acc\<close> is the dictionary \<^verbatim>\<open>presentation_model_predictions\<close> in insertion order,
  whose keys are also \<^verbatim>\<open>prediction_cols\<close>.
\<close>

fun predict_loop ::
  "evaluator \<Rightarrow> 'b presentation_model \<Rightarrow> dataframe \<Rightarrow>
   ('b component_model list \<times> fitted_predictor) list \<Rightarrow> nat \<Rightarrow> (string \<times> rat list) list \<Rightarrow>
   error + (string \<times> rat list) list" where
  "predict_loop ev m peptides_df [] i acc = Inr acc"
| "predict_loop ev m peptides_df ((cms, presentation_model_predictor) # rest) i acc =
     (case fold_features ev m cms peptides_df of
        Inl e \<Rightarrow> Inl e
      | Inr x_df \<Rightarrow>
         (let prediction_col = prediction_col_name i in
          if prediction_col \<in> set (map fst acc) then Inl (AssertionError [])
          else predict_loop ev m peptides_df rest (i + 1)
                 (acc @ [(prediction_col,
                          predict_proba1 presentation_model_predictor (df_values x_df))])))"

text \<open>
  \<^verbatim>\<open>numpy.mean(arrays, axis=0)\<close> on a list of arrays: the elementwise sum divided by the
  number of arrays. Arrays of different lengths, and an empty list (whose mean is the scalar
  \<^verbatim>\<open>nan\<close>, which \<^verbatim>\<open>pandas.DataFrame\<close> refuses as the only column), end in an error.
\<close>

definition mean_axis0 :: "rat list list \<Rightarrow> error + rat list" where
  "mean_axis0 arrays =
     (case arrays of
        [] \<Rightarrow> Inl ValueError
      | a # rest \<Rightarrow>
          if list_all (\<lambda>b. length b = length a) rest
          then Inr (map (\<lambda>j. sum_list (map (\<lambda>b. b ! j) arrays) / of_nat (length arrays))
                      [0..<length a])
          else Inl ValueError)"

definition predict_to_df ::
  "evaluator \<Rightarrow> 'b presentation_model \<Rightarrow> dataframe \<Rightarrow> error + (string \<times> rat list) list" where
  "predict_to_df ev m peptides_df =
     (if \<not> has_been_fit m then Inl (AssertionError [])
      else if \<not> has_column peptides_df ''experiment_name'' then Inl (AssertionError [])
      else if \<not> has_column peptides_df ''peptide'' then Inl (AssertionError [])
      else case (presentation_models_predictors m, trained_component_models m) of
        (Some ps, Some tcm) \<Rightarrow>
          if length ps \<noteq> length tcm then Inl (AssertionError [])
          else (case predict_loop ev m peptides_df (zip tcm ps) 0 [] of
                  Inl e \<Rightarrow> Inl e
                | Inr predictions \<Rightarrow>
                   (case predictions of
                      [(col, values)] \<Rightarrow> Inr [(''Prediction'', values)]
                    | _ \<Rightarrow>
                       (case mean_axis0 (map snd predictions) of
                          Inl e \<Rightarrow> Inl e
                        | Inr mean \<Rightarrow> Inr (predictions @ [(''Prediction'', mean)]))))
      | _ \<Rightarrow> Inl TypeError)"

definition predict ::
  "evaluator \<Rightarrow> 'b presentation_model \<Rightarrow> dataframe \<Rightarrow> error + rat list" where
  "predict ev m peptides_df =
     (if \<not> has_been_fit m then Inl (AssertionError [])
      else case predict_to_df ev m peptides_df of
        Inl e \<Rightarrow> Inl e
      | Inr df \<Rightarrow>
         (case map_of df ''Prediction'' of
            None \<Rightarrow> Inl AttributeError
          | Some values \<Rightarrow> Inr values))"

section \<open>Scoring\<close>

text \<open>
  The scoring dictionary: \<^verbatim>\<open>'score'\<close> (a number, or \<^verbatim>\<open>nan\<close>), and, when hit indices
  are asked for, \<^verbatim>\<open>'hit_indices'\<close> and \<^verbatim>\<open>'total_peptides'\<close>.
\<close>

record score_info =
  score :: cell
  hit_indices :: "rat list option"
  total_peptides :: "nat option"

text \<open>
  \<^verbatim>\<open>Series.rank(ascending=False)\<close> with pandas' default method \<^verbatim>\<open>'average'\<close>:
  the rank of a value is its 1-based position in descending order, tied values sharing the
  average of their positions.
\<close>

definition rank_descending :: "rat list \<Rightarrow> rat list" where
  "rank_descending ps =
     map (\<lambda>p. of_nat (length (filter (\<lambda>q. q > p) ps)) +
               (of_nat (length (filter (\<lambda>q. q = p) ps)) + 1) / 2) ps"

text \<open>
  \<^verbatim>\<open>float(peptides_df.hit.sum())\<close> skips missing values and needs numbers: on a
  column that holds a string, the sum or its conversion raises (a \<^verbatim>\<open>TypeError\<close> when
  strings and numbers are mixed, a \<^verbatim>\<open>ValueError\<close> when all the labels are strings that
  do not spell a number), for which the model has the one error \<open>TypeError\<close>.
  \<^verbatim>\<open>peptides_df.hit > 0\<close> is false on a missing value.
\<close>

fun hit_sum :: "cell list \<Rightarrow> error + rat" where
  "hit_sum [] = Inr 0"
| "hit_sum (Num r # rest) = (case hit_sum rest of Inl e \<Rightarrow> Inl e | Inr s \<Rightarrow> Inr (r + s))"
| "hit_sum (Null # rest) = hit_sum rest"
| "hit_sum (Str s # rest) = Inl TypeError"

fun is_hit :: "cell \<Rightarrow> bool" where
  "is_hit (Num r) = (r > 0)"
| "is_hit c = False"

text \<open>\<^verbatim>\<open>Series.mean()\<close>: missing values are skipped, and the mean of nothing is \<^verbatim>\<open>nan\<close>.\<close>

definition series_mean :: "cell list \<Rightarrow> error + cell" where
  "series_mean vs =
     (case hit_sum vs of
        Inl e \<Rightarrow> Inl e
      | Inr s \<Rightarrow>
         (let n = length (filter (\<lambda>c. c \<noteq> Null) vs)
          in if n = 0 then Inr Null else Inr (Num (s / of_nat n))))"

text \<open>
  \<^verbatim>\<open>DataFrame.nlargest(n, column)\<close> is called with a floating-point \<open>n\<close>, which pandas
  versions treat differently: it is a parameter \<open>nl\<close>.
\<close>

type_synonym nlargest = "dataframe \<Rightarrow> rat \<Rightarrow> string \<Rightarrow> error + dataframe"

text \<open>
  \<^verbatim>\<open>score_from_peptides_df\<close> returns the scoring dictionary and leaves the caller's
  frame as the second component: the frame is an object that the method writes to.
  Dividing by a \<open>top_n\<close> of zero gives \<^verbatim>\<open>nan\<close> (numpy warns and goes on).
\<close>

definition score_from_peptides_df ::
  "nlargest \<Rightarrow> evaluator \<Rightarrow> 'b presentation_model \<Rightarrow> dataframe \<Rightarrow> bool \<Rightarrow>
   (error + score_info) \<times> dataframe" where
  "score_from_peptides_df nl ev m peptides_df include_hit_indices =
     (if \<not> has_been_fit m then (Inl (AssertionError []), peptides_df)
      else if \<not> has_column peptides_df ''peptide'' then (Inl (AssertionError []), peptides_df)
      else if \<not> has_column peptides_df ''experiment_name'' then
        (Inl (AssertionError []), peptides_df)
      else if \<not> has_column peptides_df ''hit'' then (Inl (AssertionError []), peptides_df)
      else case predict ev m peptides_df of
        Inl e \<Rightarrow> (Inl e, peptides_df)
      | Inr prediction \<Rightarrow>
         (case assign_array peptides_df ''prediction'' (map Num prediction) of
            Inl e \<Rightarrow> (Inl e, peptides_df)
          | Inr peptides_df \<Rightarrow>
             (case column peptides_df ''hit'' of
                Inl e \<Rightarrow> (Inl e, peptides_df)
              | Inr hit \<Rightarrow>
                 (case hit_sum hit of
                    Inl e \<Rightarrow> (Inl e, peptides_df)
                  | Inr top_n \<Rightarrow>
                     if \<not> include_hit_indices then
                       (case nl peptides_df top_n ''prediction'' of
                          Inl e \<Rightarrow> (Inl e, peptides_df)
                        | Inr top_rows \<Rightarrow>
                           (case column top_rows ''hit'' of
                              Inl e \<Rightarrow> (Inl e, peptides_df)
                            | Inr top_hit \<Rightarrow>
                               (case series_mean top_hit of
                                  Inl e \<Rightarrow> (Inl e, peptides_df)
                                | Inr mean \<Rightarrow>
                                   (Inr \<lparr>score = mean, hit_indices = None,
                                         total_peptides = None\<rparr>, peptides_df))))
                     else
                       (let ranks = rank_descending prediction;
                            indices = sort (map fst (filter (\<lambda>(r, h). is_hit h) (zip ranks hit)));
                            in_top = length (filter (\<lambda>r. r \<le> top_n) indices)
                        in (Inr \<lparr>score = (if top_n = 0 then Null
                                           else Num (of_nat in_top / top_n)),
                                  hit_indices = Some indices,
                                  total_peptides = Some (len_df peptides_df)\<rparr>,
                            peptides_df))))))"

definition score_from_hits_and_decoy_strategy ::
  "nlargest \<Rightarrow> evaluator \<Rightarrow> 'b presentation_model \<Rightarrow> dataframe \<Rightarrow> decoy_strategy \<Rightarrow>
   error + score_info" where
  "score_from_hits_and_decoy_strategy nl ev m hits_df ds =
     (if \<not> has_been_fit m then Inl (AssertionError [])
      else fst (score_from_peptides_df nl ev m (make_hits_and_decoys_df hits_df ds) True))"

section \<open>Saving and restoring a fit\<close>

text \<open>
  The fit dictionary. A field is \<open>None\<close> when the key is absent; \<open>fit_unhandled\<close> lists
  the keys that \<^verbatim>\<open>restore_fit\<close> does not know. The predictors are stored as the model
  holds them (possibly Python's \<^verbatim>\<open>None\<close>).
\<close>

record 'b fit_dict =
  fit_trained_component_model_fits :: "'b list list option"
  fit_presentation_models_predictors :: "fitted_predictor list option option"
  fit_fit_experiments :: "cell set option"
  fit_feature_expressions :: "string list option"
  fit_unhandled :: "string list"

definition get_fit :: "'b presentation_model \<Rightarrow> error + 'b fit_dict" where
  "get_fit m =
     (if \<not> has_been_fit m then Inl (AssertionError [])
      else case fit_experiments m of
        None \<Rightarrow> Inl (AssertionError [])
      | Some experiments \<Rightarrow>
         (case trained_component_models m of
            None \<Rightarrow> Inl TypeError
          | Some tcm \<Rightarrow>
              Inr \<lparr>fit_trained_component_model_fits =
                      Some (map (\<lambda>models. map (\<lambda>component_model. get_fit_cm component_model) models)
                              tcm),
                    fit_presentation_models_predictors = Some (presentation_models_predictors m),
                    fit_fit_experiments = Some experiments,
                    fit_feature_expressions = Some (feature_expressions m),
                    fit_unhandled = []\<rparr>))"

text \<open>
  \<^verbatim>\<open>restore_fit\<close> assigns as it goes, so the state is returned also when it raises.
\<close>

definition restore_fit ::
  "'b presentation_model \<Rightarrow> 'b fit_dict \<Rightarrow>
   (error + unit) \<times> 'b presentation_model \<times> 'b event list" where
  "restore_fit m fit_d =
     (if has_been_fit m then (Inl (AssertionError []), m, [])
      else case fit_presentation_models_predictors fit_d of
        None \<Rightarrow> (Inl (KeyError ''presentation_models_predictors''), m, [])
      | Some ps \<Rightarrow>
         (let m = m\<lparr>presentation_models_predictors := ps\<rparr> in
          case fit_fit_experiments fit_d of
            None \<Rightarrow> (Inl (KeyError ''fit_experiments''), m, [])
          | Some experiments \<Rightarrow>
             (let m = m\<lparr>fit_experiments := Some experiments\<rparr> in
              case fit_trained_component_model_fits fit_d of
                None \<Rightarrow> (Inl (KeyError ''trained_component_model_fits''), m, [])
              | Some model_input_fits \<Rightarrow>
                 (let restored_expressions =
                        (case fit_feature_expressions fit_d of None \<Rightarrow> [] | Some es \<Rightarrow> es);
                      evs = (if restored_expressions \<noteq> feature_expressions m
                             then [Warning_feature_expressions restored_expressions
                                     (feature_expressions m)]
                             else [])
                  in if fit_unhandled fit_d \<noteq> [] then
                       (Inl (AssertionError (fit_unhandled fit_d)), m, evs)
                     else if length model_input_fits \<noteq>
                               (if component_models_require_fitting m then 2 else 1) then
                       (Inl (AssertionError []), m, evs)
                     else
                       (let tcm = map (\<lambda>model_input_fits_for_fold.
                                         map (\<lambda>(sub_model, sub_model_fit).
                                                clone_and_restore_fit sub_model sub_model_fit)
                                           (zip (component_models m) model_input_fits_for_fold))
                                      model_input_fits;
                            m = m\<lparr>trained_component_models := Some tcm\<rparr>
                        in if length tcm \<noteq> (if component_models_require_fitting m then 2 else 1)
                           then (Inl (AssertionError []), m, evs)
                           else (Inr (), m, evs))))))"

section \<open>Example collaborators\<close>

text \<open>
  Collaborators on which the model can be run on concrete inputs. The example component
  model has one output column and a number as fit parameter: fitting sets the parameter to
  the number of training rows, and the prediction for a row is the length of the row's
  peptide plus the parameter (missing when the peptide is).
\<close>

fun peptide_feature :: "rat \<Rightarrow> cell \<Rightarrow> cell" where
  "peptide_feature w (Str s) = Num (of_nat (length s) + w)"
| "peptide_feature w c = Null"

primcorec example_component :: "string \<Rightarrow> bool \<Rightarrow> rat \<Rightarrow> rat component_model" where
  "column_names (example_component c rf w) = [c]"
| "requires_fitting (example_component c rf w) = rf"
| "clone_and_fit (example_component c rf w) = (\<lambda>df. example_component c rf (of_nat (len_df df)))"
| "predict_cm (example_component c rf w) =
     (\<lambda>df. [(c, map (peptide_feature w)
                   (case map_of df ''peptide'' of None \<Rightarrow> [] | Some vs \<Rightarrow> vs))])"
| "get_fit_cm (example_component c rf w) = w"
| "clone_and_restore_fit (example_component c rf w) = (\<lambda>w'. example_component c rf w')"

text \<open>An evaluator for the expressions that are the name of a column.\<close>

definition column_evaluator :: evaluator where
  "column_evaluator expression df =
     (case map_of df expression of None \<Rightarrow> Inl EvalError | Some vs \<Rightarrow> Inr vs)"

text \<open>A decoy strategy: for each hit one decoy in the same experiment, with peptide \<open>A\<close>.\<close>

definition example_decoys :: decoy_strategy where
  "example_decoys hits_df =
     [(''experiment_name'', case map_of hits_df ''experiment_name'' of None \<Rightarrow> [] | Some vs \<Rightarrow> vs),
      (''peptide'', replicate (len_df hits_df) (Str ''A''))]"

text \<open>
  A predictor: the fitted predictor gives a row the sum \<open>s\<close> of its features the
  probability \<open>s / (s + n)\<close>, where \<open>n\<close> is the number of training rows.
\<close>

fun cell_value :: "cell \<Rightarrow> rat" where
  "cell_value (Num r) = r"
| "cell_value c = 0"

definition example_fitted_predictor :: "nat \<Rightarrow> fitted_predictor" where
  "example_fitted_predictor n =
     FittedPredictor
       (\<lambda>rows. map (\<lambda>row. sum_list (map cell_value row) /
                          (sum_list (map cell_value row) + of_nat n)) rows)"

definition example_predictor :: predictor where
  "example_predictor = Predictor (\<lambda>x y. example_fitted_predictor (length y))"

text \<open>
  Five hits of two experiments, and a splitter for tables of five rows that gives the
  stratified two-fold split of these hits into the positions 0, 2, 3 and 1, 4: first the
  rows 1, 4 to train on and 0, 2, 3 to test on, then the reverse.
\<close>

definition example_hits :: dataframe where
  "example_hits =
     [(''experiment_name'', [Str ''e1'', Str ''e1'', Str ''e1'', Str ''e2'', Str ''e2'']),
      (''peptide'', [Str ''SIINFEKL'', Str ''GILGFVFTL'', Str ''NLVPMVATV'', Str ''KLGGALQAK'',
                     Str ''AVFDRKSDAK''])]"

text \<open>
  Hits of the same experiments in which two observations are recorded twice: rows 0 and 1
  are the same, and so are rows 3 and 4.
\<close>

definition example_duplicate_hits :: dataframe where
  "example_duplicate_hits =
     [(''experiment_name'', [Str ''e1'', Str ''e1'', Str ''e1'', Str ''e2'', Str ''e2'']),
      (''peptide'', [Str ''SIINFEKL'', Str ''SIINFEKL'', Str ''NLVPMVATV'', Str ''KLGGALQAK'',
                     Str ''KLGGALQAK''])]"

definition example_splitter :: splitter where
  "example_splitter rs labels = Inr [([1, 4], [0, 2, 3]), ([0, 2, 3], [1, 4])]"

text \<open>An unfit model over the example collaborators, as the constructor returns it.\<close>

definition example_model :: "rat presentation_model" where
  "example_model =
     \<lparr>component_models = [example_component ''affinity'' True 0],
      component_models_require_fitting = True,
      ensemble_size = None,
      feature_expressions = [''affinity''],
      decoy_strategy = Some example_decoys,
      random_state = 0,
      predictor = example_predictor,
      trained_component_models = None,
      presentation_models_predictors = None,
      fit_experiments = None\<rparr>"

text \<open>
  A model as a single-fold fit leaves it, and a table of ten labelled peptides of one
  experiment. The fitted predictor's probability grows with the peptide's length, so the
  two hits (of lengths 10 and 8) are ranked first and third.
\<close>

definition example_fitted_model :: "rat presentation_model" where
  "example_fitted_model =
     \<lparr>component_models = [example_component ''affinity'' False 0],
      component_models_require_fitting = False,
      ensemble_size = None,
      feature_expressions = [''affinity''],
      decoy_strategy = None,
      random_state = 0,
      predictor = example_predictor,
      trained_component_models = Some [[example_component ''affinity'' False 0]],
      presentation_models_predictors = Some [example_fitted_predictor 10],
      fit_experiments = Some {Str ''e1''}\<rparr>"

definition example_peptides :: dataframe where
  "example_peptides =
     [(''experiment_name'', replicate 10 (Str ''e1'')),
      (''peptide'', [Str ''AAA'', Str ''SIINFEKLTV'', Str ''AAAAA'', Str ''SIINFEKL'', Str ''A'',
                     Str ''AAAAAAAAA'', Str ''AA'', Str ''AAAAAAA'', Str ''AAAA'', Str ''AAAAAA'']),
      (''hit'', [Num 0, Num 1, Num 0, Num 1, Num 0, Num 0, Num 0, Num 0, Num 0, Num 0])]"

text \<open>A fit dictionary with a given number of folds, for the example model.\<close>

definition example_fit_dict :: "nat \<Rightarrow> rat fit_dict" where
  "example_fit_dict folds =
     \<lparr>fit_trained_component_model_fits = Some (replicate folds [2]),
      fit_presentation_models_predictors =
        Some (Some (replicate folds (example_fitted_predictor 4))),
      fit_fit_experiments = Some {Str ''e1'', Str ''e2''},
      fit_feature_expressions = Some [''log(affinity)''],
      fit_unhandled = []\<rparr>"

text \<open>The model that the two-fold fit of \<open>example_model\<close> on \<open>example_hits\<close> gives.\<close>

definition example_two_fold_model :: "rat presentation_model" where
  "example_two_fold_model =
     example_model
       \<lparr>decoy_strategy := None,
        trained_component_models :=
          Some [[example_component ''affinity'' True 2], [example_component ''affinity'' True 3]],
        presentation_models_predictors :=
          Some [example_fitted_predictor 6, example_fitted_predictor 4],
        fit_experiments := Some {Str ''e1'', Str ''e2''}\<rparr>"

text \<open>
  A model whose component model needs no fitting (so that \<^verbatim>\<open>fit\<close> takes the single-fold
  path), hits of which one has no peptide, the hits-and-decoys table that fitting
  assembles from them (the component model has no prediction for the row without peptide),
  and a table in which one hit label is missing.
\<close>

definition example_single_model :: "rat presentation_model" where
  "example_single_model =
     example_model\<lparr>component_models := [example_component ''affinity'' False 0],
                   component_models_require_fitting := False\<rparr>"

definition example_missing_hits :: dataframe where
  "example_missing_hits =
     [(''experiment_name'', [Str ''e1'', Str ''e1'', Str ''e1'']),
      (''peptide'', [Str ''SIINFEKL'', Null, Str ''GILGFVFTL''])]"

definition example_missing_table :: dataframe where
  "example_missing_table =
     [(''experiment_name'', [Str ''e1'', Str ''e1'', Str ''e1'', Str ''e1'', Str ''e1'', Str ''e1'']),
      (''peptide'', [Str ''SIINFEKL'', Null, Str ''GILGFVFTL'', Str ''A'', Str ''A'', Str ''A'']),
      (''hit'', [Num 1, Num 1, Num 1, Num 0, Num 0, Num 0]),
      (''affinity'', [Num 8, Null, Num 9, Num 1, Num 1, Num 1])]"

definition example_unlabelled_table :: dataframe where
  "example_unlabelled_table =
     [(''experiment_name'', [Str ''e1'', Str ''e1'', Str ''e1'']),
      (''peptide'', [Str ''SIINFEKL'', Str ''GILGFVFTL'', Str ''A'']),
      (''hit'', [Num 1, Null, Num 0]),
      (''affinity'', [Num 8, Num 9, Num 1])]"

section \<open>Auxiliary predicates for the proofs\<close>

text \<open>
  \<open>clash cols xs\<close>: some model of \<open>xs\<close> declares a column of \<open>cols\<close>;
  \<open>overlapping xs\<close>: two models of \<open>xs\<close> declare a common column.
\<close>

definition clash :: "string set \<Rightarrow> 'b component_model list \<Rightarrow> bool" where
  "clash cols xs = (\<exists>i < length xs. cols \<inter> set (column_names (xs ! i)) \<noteq> {})"

definition overlapping :: "'b component_model list \<Rightarrow> bool" where
  "overlapping xs = (\<exists>i j. i < j \<and> j < length xs \<and>
              set (column_names (xs ! i)) \<inter> set (column_names (xs ! j)) \<noteq> {})"


text \<open>\<open>clean n df\<close>: every column of \<open>df\<close> has \<open>n\<close> values, none of them missing.\<close>

definition clean :: "nat \<Rightarrow> dataframe \<Rightarrow> bool" where
  "clean n df = (\<forall>(c, vs) \<in> set df. length vs = n \<and> Null \<notin> set vs)"

text \<open>
  \<open>fold_calls cms ds hits_df fold1 fold2 evs\<close>: in the log \<open>evs\<close> of one fold, every
  \<^verbatim>\<open>clone_and_fit\<close> is called on a model of \<open>cms\<close> with the rows \<open>fold1\<close> of the hits,
  and every model whose \<^verbatim>\<open>predict\<close> is called is one that such a call of this fold has
  returned; the table it is given is the hits-and-decoys table made from the rows \<open>fold2\<close>
  of the hits with the decoy strategy \<open>ds\<close>, with predicted columns assigned; the
  positions are then within the hits table.
\<close>

definition fold_calls ::
  "'b component_model list \<Rightarrow> decoy_strategy option \<Rightarrow> dataframe \<Rightarrow> nat list \<Rightarrow> nat list \<Rightarrow>
   'b event list \<Rightarrow> bool" where
  "fold_calls cms ds hits_df fold1 fold2 evs =
     ((\<forall>cm T. Call_clone_and_fit cm T \<in> set evs \<longrightarrow>
          cm \<in> set cms \<and> T = select_rows hits_df fold1 \<and>
          list_all (\<lambda>i. i < len_df hits_df) fold1) \<and>
      (\<forall>sm T'. Call_predict sm T' \<in> set evs \<longrightarrow>
          list_all (\<lambda>i. i < len_df hits_df) fold1 \<and>
          list_all (\<lambda>i. i < len_df hits_df) fold2 \<and>
          (\<exists>cm. Call_clone_and_fit cm (select_rows hits_df fold1) \<in> set evs \<and>
             sm = clone_and_fit cm (select_rows hits_df fold1)) \<and>
          (\<exists>d outs. ds = Some d \<and>
             assign_all (make_hits_and_decoys_df (select_rows hits_df fold2) d) outs = Inr T')))"

section \<open>Facts about tables\<close>

lemma set_col_columns:
  "map fst (set_col df c vs) = (if c \<in> set (map fst df) then map fst df else map fst df @ [c])"
  by (induction df c vs rule: set_col.induct) auto

lemma set_col_new_differs: "c \<notin> set (map fst df) \<Longrightarrow> set_col df c vs \<noteq> df"
proof
  assume "c \<notin> set (map fst df)" "set_col df c vs = df"
  then have "map fst df @ [c] = map fst df" using set_col_columns [of df c vs] by simp
  then show False by simp
qed

lemma map_of_set_col: "map_of (set_col df c vs) c = Some vs"
  by (induction df c vs rule: set_col.induct) auto

lemma map_of_set_col_other: "c' \<noteq> c \<Longrightarrow> map_of (set_col df c vs) c' = map_of df c'"
  by (induction df c vs rule: set_col.induct) auto

lemma len_df_set_col:
  "df \<noteq> [] \<Longrightarrow> length vs = len_df df \<Longrightarrow> len_df (set_col df c vs) = len_df df"
  by (cases df) (auto simp: len_df_def)

lemma upt_Suc_shift: "[0..<Suc n] = 0 # map Suc [0..<n]"
  by (simp add: upt_conv_Cons map_Suc_upt del: upt_Suc)

section \<open>The example model runs\<close>

lemma example_init:
  "init [example_component ''affinity'' True 0] [''affinity''] (Some example_decoys)
     example_predictor 0 None = Inr example_model"
  by (simp add: init_def example_model_def)

lemmas example_unfold =
  has_been_fit_def has_column_def example_hits_def column_def example_splitter_def
  fit_fold_def iloc_def select_rows_def len_df_def Let_def fit_final_predictor_def
  make_hits_and_decoys_df_def example_decoys_def assign_scalar_def concat_df_def
  assign_array_def make_features_and_target_def evaluate_expressions_def column_evaluator_def
  assert_no_null_def assign_series_def drop_nulls_and_warn_def row_has_null_def df_row_def
  del_col_def fit_finish_def upt_rec

lemma example_fit_succeeds:
  "\<exists>m evs. fit example_splitter column_evaluator example_model example_hits = (Inr (), m, evs)"
  by (simp add: fit_def example_model_def example_unfold)

lemmas predict_unfold =
  predict_def predict_to_df_def has_been_fit_def has_column_def fold_features_def
  assert_no_null_def assert_no_null_df_def assign_series_def evaluate_expressions_def
  column_evaluator_def len_df_def df_values_def df_row_def example_fitted_predictor_def
  prediction_col_name_def Let_def upt_rec

lemma example_prediction:
  "predict column_evaluator example_fitted_model example_peptides =
     Inr [3 / 13, 10 / 20, 5 / 15, 8 / 18, 1 / 11, 9 / 19, 2 / 12, 7 / 17, 4 / 14, 6 / 16]"
  by (simp add: example_fitted_model_def example_peptides_def predict_unfold)

lemma example_peptides_facts:
  "has_been_fit example_fitted_model"
  "has_column example_peptides ''peptide''"
  "has_column example_peptides ''experiment_name''"
  "has_column example_peptides ''hit''"
  "column example_peptides ''hit'' =
     Inr [Num 0, Num 1, Num 0, Num 1, Num 0, Num 0, Num 0, Num 0, Num 0, Num 0]"
  "len_df example_peptides = 10"
  "\<not> has_column example_peptides ''prediction''"
  by (simp_all add: has_been_fit_def example_fitted_model_def has_column_def example_peptides_def
        column_def len_df_def)

lemma example_fit_result:
  "\<exists>evs. fit example_splitter column_evaluator example_model example_hits =
     (Inr (), example_two_fold_model, evs)"
  by (simp add: fit_def example_model_def example_two_fold_model_def example_predictor_def example_unfold eval_nat_numeral)

lemma example_fit_log:
  "fit example_splitter column_evaluator example_model example_hits =
     (Inr (), example_two_fold_model,
      [Call_clone_and_fit (example_component ''affinity'' True 0)
         (select_rows example_hits [1, 4]),
       Call_predict (example_component ''affinity'' True 2)
         (make_hits_and_decoys_df (select_rows example_hits [0, 2, 3]) example_decoys),
       Call_clone_and_fit (example_component ''affinity'' True 0)
         (select_rows example_hits [0, 2, 3]),
       Call_predict (example_component ''affinity'' True 3)
         (make_hits_and_decoys_df (select_rows example_hits [1, 4]) example_decoys)])"
  by (simp add: fit_def example_model_def example_two_fold_model_def example_predictor_def
        example_unfold eval_nat_numeral)


section \<open>Construction: column namespaces\<close>

lemma clash_Nil: "\<not> clash cols []" by (simp add: clash_def)
lemma clash_Cons: "clash cols (cm # rest) \<longleftrightarrow> cols \<inter> set (column_names cm) \<noteq> {} \<or> clash cols rest"
  by (simp add: clash_def Ex_less_Suc2)
lemma clash_Un: "clash (A \<union> B) xs \<longleftrightarrow> clash A xs \<or> clash B xs"
  unfolding clash_def by (simp add: Int_Un_distrib2) blast
lemma overlapping_Nil: "\<not> overlapping []" by (simp add: overlapping_def)
lemma overlapping_Cons: "overlapping (cm # rest) \<longleftrightarrow> clash (set (column_names cm)) rest \<or> overlapping rest"
proof
    assume "overlapping (cm # rest)"
    then obtain i j where ij: "i < j" "j < length (cm # rest)"
      "set (column_names ((cm # rest) ! i)) \<inter> set (column_names ((cm # rest) ! j)) \<noteq> {}"
      unfolding overlapping_def by blast
    from ij(1) obtain j' where j': "j = Suc j'" by (cases j) auto
    show "clash (set (column_names cm)) rest \<or> overlapping rest"
    proof (cases i)
      case 0
      with ij j' have "j' < length rest \<and> set (column_names cm) \<inter> set (column_names (rest ! j')) \<noteq> {}" by simp
      then show ?thesis unfolding clash_def by blast
    next
      case (Suc i')
      with ij j' have "i' < j' \<and> j' < length rest \<and>
        set (column_names (rest ! i')) \<inter> set (column_names (rest ! j')) \<noteq> {}" by simp
      then show ?thesis unfolding overlapping_def by blast
    qed
next
    assume "clash (set (column_names cm)) rest \<or> overlapping rest"
    then show "overlapping (cm # rest)"
    proof
      assume "clash (set (column_names cm)) rest"
      then obtain j where "j < length rest" "set (column_names cm) \<inter> set (column_names (rest ! j)) \<noteq> {}"
        unfolding clash_def by blast
      then have "0 < Suc j \<and> Suc j < length (cm # rest) \<and>
        set (column_names ((cm # rest) ! 0)) \<inter> set (column_names ((cm # rest) ! Suc j)) \<noteq> {}"
        by simp
      then show ?thesis unfolding overlapping_def by blast
    next
      assume "overlapping rest"
      then obtain i j where "i < j" "j < length rest"
        "set (column_names (rest ! i)) \<inter> set (column_names (rest ! j)) \<noteq> {}"
        unfolding overlapping_def by blast
      then have "Suc i < Suc j \<and> Suc j < length (cm # rest) \<and>
        set (column_names ((cm # rest) ! Suc i)) \<inter> set (column_names ((cm # rest) ! Suc j)) \<noteq> {}"
        by simp
      then show ?thesis unfolding overlapping_def by blast
    qed
qed

lemma init_loop_fails_iff:
  "(\<exists>e. init_loop cms columns rf = Inl e) \<longleftrightarrow> clash columns cms \<or> overlapping cms"
proof (induction cms arbitrary: columns rf)
  case Nil
  show ?case by (simp add: clash_Nil overlapping_Nil)
next
  case (Cons cm rest)
  show ?case
  proof (cases "columns \<inter> set (column_names cm) \<noteq> {}")
    case True
    then show ?thesis by (simp add: Let_def clash_Cons)
  next
    case False
    then have "(\<exists>e. init_loop (cm # rest) columns rf = Inl e) \<longleftrightarrow>
               (\<exists>e. init_loop rest (columns \<union> set (column_names cm)) (if requires_fitting cm then True else rf) = Inl e)"
      by (simp add: Let_def)
    also have "\<dots> \<longleftrightarrow> clash (columns \<union> set (column_names cm)) rest \<or> overlapping rest"
      by (rule Cons.IH)
    also have "\<dots> \<longleftrightarrow> clash columns (cm # rest) \<or> overlapping (cm # rest)"
      using False by (auto simp add: clash_Cons overlapping_Cons clash_Un)
    finally show ?thesis .
  qed
qed

lemma init_loop_error_kind:
  "init_loop cms columns rf = Inl e \<Longrightarrow> \<exists>cols. e = AssertionError cols"
  by (induction cms arbitrary: columns rf) (auto simp: Let_def split: if_splits)

lemma init_loop_flag:
  "init_loop cms columns rf = Inr b \<Longrightarrow> b = (rf \<or> (\<exists>cm \<in> set cms. requires_fitting cm))"
  by (induction cms arbitrary: columns rf) (auto simp: Let_def split: if_splits)

text \<open>
  C7: if two component models of the list declare a common output column name, the
  constructor fails with an assertion error (no model exists that could be fit); if the
  declared column-name sets are pairwise disjoint, it returns an unfit model.
\<close>

theorem init_namespace_collision:
  "((\<exists>i j. i < j \<and> j < length cms \<and>
        set (column_names (cms ! i)) \<inter> set (column_names (cms ! j)) \<noteq> {})
      \<longrightarrow> (\<exists>cols. init cms exprs ds p rs es = Inl (AssertionError cols))) \<and>
   (\<not> (\<exists>i j. i < j \<and> j < length cms \<and>
        set (column_names (cms ! i)) \<inter> set (column_names (cms ! j)) \<noteq> {})
      \<longrightarrow> init cms exprs ds p rs es =
            Inr \<lparr>component_models = cms,
                 component_models_require_fitting = (\<exists>cm \<in> set cms. requires_fitting cm),
                 ensemble_size = es,
                 feature_expressions = exprs,
                 decoy_strategy = ds,
                 random_state = rs,
                 predictor = p,
                 trained_component_models = None,
                 presentation_models_predictors = None,
                 fit_experiments = None\<rparr>)"
proof -
  have fails: "(\<exists>e. init_loop cms {} False = Inl e) \<longleftrightarrow> overlapping cms"
    using init_loop_fails_iff [of cms "{}" False] by (simp add: clash_def)
  show ?thesis
  proof (cases "init_loop cms {} False")
    case (Inl e)
    then have "overlapping cms" using fails by blast
    moreover obtain cols where "e = AssertionError cols"
      using init_loop_error_kind [OF Inl] by blast
    ultimately show ?thesis using Inl by (simp add: init_def overlapping_def)
  next
    case (Inr b)
    then have "\<not> overlapping cms" using fails by simp
    moreover have "b = (\<exists>cm \<in> set cms. requires_fitting cm)"
      using init_loop_flag [OF Inr] by simp
    ultimately show ?thesis using Inr by (simp add: init_def overlapping_def)
  qed
qed

theorem init_namespace_collision_witness:
  "(\<exists>i j. i < j \<and> j < length [example_component ''affinity'' False 0, example_component ''affinity'' True (0::rat)] \<and>
        set (column_names ([example_component ''affinity'' False 0, example_component ''affinity'' True 0] ! i)) \<inter>
        set (column_names ([example_component ''affinity'' False 0, example_component ''affinity'' True 0] ! j)) \<noteq> {}) \<and>
   init [example_component ''affinity'' False 0, example_component ''affinity'' True 0] [''log(affinity)''] None
        (Predictor (\<lambda>x y. FittedPredictor (\<lambda>x. []))) 0 None = Inl (AssertionError [''affinity'']) \<and>
   \<not> (\<exists>i j. i < j \<and> j < length [example_component ''affinity'' False 0, example_component ''cleavage'' True (0::rat)] \<and>
        set (column_names ([example_component ''affinity'' False 0, example_component ''cleavage'' True 0] ! i)) \<inter>
        set (column_names ([example_component ''affinity'' False 0, example_component ''cleavage'' True 0] ! j)) \<noteq> {}) \<and>
   (\<exists>m. init [example_component ''affinity'' False 0, example_component ''cleavage'' True 0] [''log(affinity)''] None
        (Predictor (\<lambda>x y. FittedPredictor (\<lambda>x. []))) 0 None = Inr m \<and> component_models_require_fitting m)"
proof -
  let ?bad = "[example_component ''affinity'' False 0, example_component ''affinity'' True (0::rat)]"
  let ?good = "[example_component ''affinity'' False 0, example_component ''cleavage'' True (0::rat)]"
  let ?p = "Predictor (\<lambda>x y. FittedPredictor (\<lambda>x. []))"
  have bad: "\<exists>i j. i < j \<and> j < length ?bad \<and>
        set (column_names (?bad ! i)) \<inter> set (column_names (?bad ! j)) \<noteq> {}"
    by (rule exI [of _ 0], rule exI [of _ 1]) simp
  have good: "\<not> (\<exists>i j. i < j \<and> j < length ?good \<and>
        set (column_names (?good ! i)) \<inter> set (column_names (?good ! j)) \<noteq> {})"
    by (auto simp: less_Suc_eq numeral_2_eq_2)
  have 1: "init ?bad [''log(affinity)''] None ?p 0 None = Inl (AssertionError [''affinity''])"
    by (simp add: init_def)
  from init_namespace_collision [of ?good "[''log(affinity)'']" None ?p 0 None] good
  have 2: "\<exists>m. init ?good [''log(affinity)''] None ?p 0 None = Inr m \<and> component_models_require_fitting m"
    by simp
  from init_namespace_collision [of ?bad "[''log(affinity)'']" None ?p 0 None] bad 1
  have "\<exists>cols. init ?bad [''log(affinity)''] None ?p 0 None = Inl (AssertionError cols)" by blast
  with bad good 1 2 show ?thesis by blast
qed

section \<open>The lifecycle\<close>

lemma fit_finish_ok: "fit_finish m evs = (Inr u, m', evs') \<Longrightarrow> fit_experiments m' = fit_experiments m"
  by (auto simp: fit_finish_def split: option.splits if_splits)

lemma fit_fold_experiments:
  "fit_fold ev m hits_df folds = (r, m', evs) \<Longrightarrow> fit_experiments m' = fit_experiments m"
  by (auto simp: fit_fold_def Let_def split: prod.splits if_splits sum.splits option.splits)

lemma fit_folds_experiments:
  "fit_folds ev m hits_df splits = (r, m', evs) \<Longrightarrow> fit_experiments m' = fit_experiments m"
proof (induction splits arbitrary: m r m' evs)
  case Nil
  then show ?case by simp
next
  case (Cons folds rest)
  obtain r1 m1 e1 where f: "fit_fold ev m hits_df folds = (r1, m1, e1)"
    by (cases "fit_fold ev m hits_df folds") auto
  have m1: "fit_experiments m1 = fit_experiments m" using fit_fold_experiments [OF f] .
  show ?case
  proof (cases r1)
    case (Inl e)
    with Cons.prems f m1 show ?thesis by simp
  next
    case (Inr u)
    obtain r2 m2 e2 where g: "fit_folds ev m1 hits_df rest = (r2, m2, e2)"
      by (cases "fit_folds ev m1 hits_df rest") auto
    from Cons.IH [OF g] m1 have "fit_experiments m2 = fit_experiments m" by simp
    with Cons.prems f g Inr show ?thesis by simp
  qed
qed

lemma fit_success_has_been_fit:
  assumes "fit skf ev m hits_df = (Inr u, m', evs)"
  shows "has_been_fit m'"
proof -
  from assms have nf: "\<not> has_been_fit m" by (auto simp: fit_def split: if_splits)
  from assms nf obtain en where en: "column hits_df ''experiment_name'' = Inr en"
    by (cases "column hits_df ''experiment_name''") (auto simp: fit_def split: if_splits)
  let ?m1 = "m\<lparr>fit_experiments := Some (set en)\<rparr>"
  let ?m2 = "?m1\<lparr>trained_component_models := Some [], presentation_models_predictors := Some []\<rparr>"
  show ?thesis
  proof (cases "component_models_require_fitting m \<and> (ensemble_size m = None \<or> ensemble_size m = Some 0)")
    case True
    with assms nf en obtain splits where sp: "skf (random_state m) en = Inr splits"
      by (cases "skf (random_state m) en") (auto simp: fit_def Let_def split: if_splits)
    obtain r2 m2 e2 where g: "fit_folds ev ?m2 hits_df splits = (r2, m2, e2)"
      by (cases "fit_folds ev ?m2 hits_df splits") auto
    from fit_folds_experiments [OF g] have fe: "fit_experiments m2 = Some (set en)" by simp
    from assms nf en True sp g have "fit_finish m2 e2 = (Inr u, m', evs)"
      by (auto simp: fit_def Let_def split: if_splits sum.splits)
    from fit_finish_ok [OF this] fe show ?thesis by (simp add: has_been_fit_def)
  next
    case False
    with assms nf en have nrf: "\<not> component_models_require_fitting m"
      by (auto simp: fit_def Let_def split: if_splits)
    obtain r evs1 where ffp: "fit_final_predictor ev ?m1 hits_df (component_models m) = (r, evs1)"
      by (cases "fit_final_predictor ev ?m1 hits_df (component_models m)") auto
    from assms nf en nrf ffp obtain fp where
      "fit_finish (?m1\<lparr>presentation_models_predictors := Some [fp],
                        trained_component_models := Some [component_models m]\<rparr>) evs1 = (Inr u, m', evs)"
      by (cases r) (auto simp: fit_def Let_def split: if_splits)
    from fit_finish_ok [OF this] show ?thesis by (simp add: has_been_fit_def)
  qed
qed

lemma restore_fit_success_has_been_fit:
  "restore_fit m fit_d = (Inr u, m', evs) \<Longrightarrow> has_been_fit m'"
  by (auto simp: restore_fit_def Let_def has_been_fit_def split: if_splits option.splits)

lemma init_unfit: "init cms exprs ds p rs es = Inr m \<Longrightarrow> \<not> has_been_fit m"
  by (auto simp: init_def has_been_fit_def split: sum.splits)

text \<open>
  C6: the lifecycle is enforced. On a model that has been fit, \<^verbatim>\<open>fit\<close> (with any data)
  and \<^verbatim>\<open>restore_fit\<close> raise an assertion error at once and leave the model as it was;
  on a model that has not been fit, \<^verbatim>\<open>predict\<close>, \<^verbatim>\<open>predict_to_df\<close> and both
  scoring methods raise an assertion error at once. A model is unfit when constructed,
  and has been fit after a successful \<^verbatim>\<open>fit\<close> or \<^verbatim>\<open>restore_fit\<close>.
\<close>

theorem lifecycle_enforced:
  "(has_been_fit m \<longrightarrow>
      fit skf ev m hits_df = (Inl (AssertionError []), m, []) \<and>
      restore_fit m fit_d = (Inl (AssertionError []), m, [])) \<and>
   (\<not> has_been_fit m \<longrightarrow>
      predict ev m peptides_df = Inl (AssertionError []) \<and>
      predict_to_df ev m peptides_df = Inl (AssertionError []) \<and>
      score_from_peptides_df nl ev m peptides_df b = (Inl (AssertionError []), peptides_df) \<and>
      score_from_hits_and_decoy_strategy nl ev m hits_df ds = Inl (AssertionError [])) \<and>
   (init cms exprs ds0 p rs es = Inr m \<longrightarrow> \<not> has_been_fit m) \<and>
   (fit skf ev m0 hits_df0 = (Inr (), m, evs) \<longrightarrow> has_been_fit m) \<and>
   (restore_fit m0 fit_d0 = (Inr (), m, evs) \<longrightarrow> has_been_fit m)"
  using fit_success_has_been_fit [of skf ev m0 hits_df0 "()" m evs]
        restore_fit_success_has_been_fit [of m0 fit_d0 "()" m evs]
        init_unfit [of cms exprs ds0 p rs es m]
  by (simp add: fit_def restore_fit_def predict_def predict_to_df_def
        score_from_peptides_df_def score_from_hits_and_decoy_strategy_def)


theorem lifecycle_enforced_witness:
  "\<exists>m evs art m' evs'.
     init [example_component ''affinity'' True 0] [''affinity''] (Some example_decoys)
       example_predictor 0 None = Inr example_model \<and>
     \<not> has_been_fit example_model \<and>
     predict column_evaluator example_model example_hits = Inl (AssertionError []) \<and>
     score_from_peptides_df (\<lambda>df n c. Inr df) column_evaluator example_model example_hits True =
       (Inl (AssertionError []), example_hits) \<and>
     fit example_splitter column_evaluator example_model example_hits = (Inr (), m, evs) \<and>
     has_been_fit m \<and>
     fit example_splitter column_evaluator m example_hits = (Inl (AssertionError []), m, []) \<and>
     get_fit m = Inr art \<and>
     restore_fit m art = (Inl (AssertionError []), m, []) \<and>
     restore_fit example_model art = (Inr (), m', evs') \<and>
     has_been_fit m'"
proof -
  obtain m evs where f: "fit example_splitter column_evaluator example_model example_hits = (Inr (), m, evs)"
    using example_fit_succeeds by blast
  note at_unfit = lifecycle_enforced [where m = example_model and ev = column_evaluator
      and peptides_df = example_hits and nl = "\<lambda>df n c. Inr df" and b = True
      and cms = "[example_component ''affinity'' True 0]" and exprs = "[''affinity'']"
      and ?ds0.0 = "Some example_decoys" and p = example_predictor and rs = 0 and es = None]
  have unfit: "\<not> has_been_fit example_model"
    using at_unfit example_init by simp
  have before:
    "predict column_evaluator example_model example_hits = Inl (AssertionError []) \<and>
     score_from_peptides_df (\<lambda>df n c. Inr df) column_evaluator example_model example_hits True =
       (Inl (AssertionError []), example_hits)"
    using at_unfit unfit by simp
  note at_fit = lifecycle_enforced [where m = m and skf = example_splitter
      and ev = column_evaluator and hits_df = example_hits
      and ?m0.0 = example_model and ?hits_df0.0 = example_hits and evs = evs]
  have fitted: "has_been_fit m"
    using at_fit f by simp
  obtain art where g: "get_fit m = Inr art"
    using f by (auto simp: fit_def example_model_def example_unfold get_fit_def)
  have after:
    "fit example_splitter column_evaluator m example_hits = (Inl (AssertionError []), m, []) \<and>
     restore_fit m art = (Inl (AssertionError []), m, [])"
    using at_fit [where fit_d = art] fitted by simp
  obtain m' evs' where r: "restore_fit example_model art = (Inr (), m', evs')"
    using f g by (auto simp: fit_def example_model_def example_unfold get_fit_def restore_fit_def)
  have restored: "has_been_fit m'"
    using lifecycle_enforced [where m = m' and ?m0.0 = example_model and ?fit_d0.0 = art and evs = evs'] r
    by simp
  show ?thesis
    using example_init unfit before f fitted after g r restored by blast
qed

section \<open>What a successful fit leaves\<close>

lemma fit_fold_effect:
  assumes "fit_fold ev m hits_df folds = (Inr u, m', evs)"
  shows "\<exists>tcm ps training final_predictor.
           trained_component_models m = Some tcm \<and>
           presentation_models_predictors m = Some ps \<and>
           m' = m\<lparr>trained_component_models :=
                    Some (tcm @ [map (\<lambda>sub_model. clone_and_fit sub_model training)
                                   (component_models m)]),
                  presentation_models_predictors := Some (ps @ [final_predictor])\<rparr>"
  using assms
  by (auto simp: fit_fold_def Let_def split: prod.splits if_splits sum.splits option.splits)

lemma fit_folds_effect:
  assumes "fit_folds ev m hits_df splits = (Inr u, m', evs)"
    and "trained_component_models m = Some tcm"
    and "presentation_models_predictors m = Some ps"
  shows "\<exists>tcm' ps'.
           length tcm' = length splits \<and> length ps' = length splits \<and>
           (\<forall>models \<in> set tcm'. length models = length (component_models m)) \<and>
           m' = m\<lparr>trained_component_models := Some (tcm @ tcm'),
                  presentation_models_predictors := Some (ps @ ps')\<rparr>"
  using assms
proof (induction splits arbitrary: m tcm ps evs)
  case Nil
  then show ?case by simp
next
  case (Cons folds rest)
  obtain r1 m1 e1 where a: "fit_fold ev m hits_df folds = (r1, m1, e1)"
    by (cases "fit_fold ev m hits_df folds") auto
  with Cons.prems(1) have r1: "r1 = Inr ()" by (cases r1) auto
  from fit_fold_effect [OF a [unfolded r1]] Cons.prems(2,3) obtain sm fp where
    m1: "length sm = length (component_models m)"
        "m1 = m\<lparr>trained_component_models := Some (tcm @ [sm]),
                 presentation_models_predictors := Some (ps @ [fp])\<rparr>"
    by (metis length_map option.inject)
  obtain r2 m2 e2 where b: "fit_folds ev m1 hits_df rest = (r2, m2, e2)"
    by (cases "fit_folds ev m1 hits_df rest") auto
  with Cons.prems(1) a r1 have r2: "r2 = Inr u" "m2 = m'" by auto
  from Cons.IH [OF b [unfolded r2], of "tcm @ [sm]" "ps @ [fp]"] m1(2)
  obtain tcm' ps' where rest:
    "length tcm' = length rest" "length ps' = length rest"
    "\<forall>models \<in> set tcm'. length models = length (component_models m1)"
    "m' = m1\<lparr>trained_component_models := Some ((tcm @ [sm]) @ tcm'),
              presentation_models_predictors := Some ((ps @ [fp]) @ ps')\<rparr>" by auto
  have "length (sm # tcm') = length (folds # rest) \<and> length (fp # ps') = length (folds # rest) \<and>
        (\<forall>models \<in> set (sm # tcm'). length models = length (component_models m)) \<and>
        m' = m\<lparr>trained_component_models := Some (tcm @ sm # tcm'),
               presentation_models_predictors := Some (ps @ fp # ps')\<rparr>"
    using rest m1 by simp
  then show ?case by blast
qed

lemma fit_establishes_fit_state:
  assumes "fit skf ev m0 hits_df = (Inr (), m, evs)"
    and "component_models_require_fitting m0 \<longrightarrow>
           (\<exists>labels split1 split2. column hits_df ''experiment_name'' = Inr labels \<and>
              skf (random_state m0) labels = Inr [split1, split2])"
  shows "\<exists>tcm ps. trained_component_models m = Some tcm \<and>
           presentation_models_predictors m = Some ps \<and>
           length tcm = (if component_models_require_fitting m then 2 else 1) \<and>
           length ps = length tcm \<and>
           (\<forall>models \<in> set tcm. length models = length (component_models m)) \<and>
           component_models m = component_models m0 \<and>
           feature_expressions m = feature_expressions m0 \<and>
           component_models_require_fitting m = component_models_require_fitting m0 \<and>
           has_been_fit m"
proof -
  from assms(1) have nf: "\<not> has_been_fit m0" by (auto simp: fit_def split: if_splits)
  from assms(1) nf obtain labels where en: "column hits_df ''experiment_name'' = Inr labels"
    by (cases "column hits_df ''experiment_name''") (auto simp: fit_def split: if_splits)
  have fitted: "has_been_fit m" using fit_success_has_been_fit [OF assms(1)] .
  show ?thesis
  proof (cases "component_models_require_fitting m0")
    case True
    with assms(1) nf en have es: "ensemble_size m0 = None \<or> ensemble_size m0 = Some 0"
      by (auto simp: fit_def Let_def split: if_splits)
    from True assms(2) en obtain split1 split2 where
      sp: "skf (random_state m0) labels = Inr [split1, split2]" by auto
    let ?m1 = "m0\<lparr>fit_experiments := Some (set labels),
                   trained_component_models := Some [], presentation_models_predictors := Some []\<rparr>"
    obtain r2 m2 e2 where g: "fit_folds ev ?m1 hits_df [split1, split2] = (r2, m2, e2)"
      by (cases "fit_folds ev ?m1 hits_df [split1, split2]") auto
    from assms(1) nf en True es sp g have fin: "r2 = Inr ()" "fit_finish m2 e2 = (Inr (), m, evs)"
      by (auto simp: fit_def Let_def split: if_splits sum.splits)
    from fit_folds_effect [OF g [unfolded fin(1)], of "[]" "[]"]
    have "\<exists>tcm' ps'. length tcm' = 2 \<and> length ps' = 2 \<and>
        (\<forall>models \<in> set tcm'. length models = length (component_models m0)) \<and>
        m2 = ?m1\<lparr>trained_component_models := Some tcm',
                   presentation_models_predictors := Some ps'\<rparr>"
      by (simp add: numeral_2_eq_2)
    then obtain tcm' ps' where
      eff: "length tcm' = 2" "length ps' = 2"
        "\<forall>models \<in> set tcm'. length models = length (component_models m0)"
        "m2 = ?m1\<lparr>trained_component_models := Some tcm',
                   presentation_models_predictors := Some ps'\<rparr>" by blast
    from fin(2) eff have "m = m2\<lparr>decoy_strategy := None\<rparr>"
      by (auto simp: fit_finish_def split: if_splits)
    with eff True fitted show ?thesis by simp
  next
    case False
    let ?m1 = "m0\<lparr>fit_experiments := Some (set labels)\<rparr>"
    obtain r evs1 where ffp: "fit_final_predictor ev ?m1 hits_df (component_models m0) = (r, evs1)"
      by (cases "fit_final_predictor ev ?m1 hits_df (component_models m0)") auto
    from assms(1) nf en False ffp obtain fp where
      "fit_finish (?m1\<lparr>presentation_models_predictors := Some [fp],
                        trained_component_models := Some [component_models m0]\<rparr>) evs1 = (Inr (), m, evs)"
      by (cases r) (auto simp: fit_def Let_def split: if_splits)
    then have "m = ?m1\<lparr>presentation_models_predictors := Some [fp],
                        trained_component_models := Some [component_models m0],
                        decoy_strategy := None\<rparr>"
      by (auto simp: fit_finish_def split: if_splits)
    with False fitted show ?thesis by simp
  qed
qed

section \<open>Restoring a fit: mismatches\<close>

text \<open>
  C8: on an unfit model, with a fit dictionary that holds the three required keys and no
  unknown key: if the number of folds in the dictionary is not the number the model
  expects (2 if its component models require fitting, otherwise 1), \<^verbatim>\<open>restore_fit\<close>
  raises an assertion error; if it is, \<^verbatim>\<open>restore_fit\<close> succeeds whatever the
  dictionary's feature expressions are, and logs a warning exactly when they differ from
  the model's.
\<close>

theorem restore_fit_mismatches:
  assumes "\<not> has_been_fit m"
    and "fit_presentation_models_predictors fit_d = Some ps"
    and "fit_fit_experiments fit_d = Some experiments"
    and "fit_trained_component_model_fits fit_d = Some model_input_fits"
    and "fit_unhandled fit_d = []"
  shows
   "(length model_input_fits \<noteq> (if component_models_require_fitting m then 2 else 1) \<longrightarrow>
       (\<exists>m' evs. restore_fit m fit_d = (Inl (AssertionError []), m', evs))) \<and>
    (length model_input_fits = (if component_models_require_fitting m then 2 else 1) \<longrightarrow>
       restore_fit m fit_d =
         (Inr (),
          m\<lparr>presentation_models_predictors := ps,
            fit_experiments := Some experiments,
            trained_component_models :=
              Some (map (\<lambda>fold_fits. map (\<lambda>(sub_model, sub_model_fit).
                                             clone_and_restore_fit sub_model sub_model_fit)
                                        (zip (component_models m) fold_fits))
                        model_input_fits)\<rparr>,
          if (case fit_feature_expressions fit_d of None \<Rightarrow> [] | Some es \<Rightarrow> es) \<noteq>
             feature_expressions m
          then [Warning_feature_expressions
                  (case fit_feature_expressions fit_d of None \<Rightarrow> [] | Some es \<Rightarrow> es)
                  (feature_expressions m)]
          else []))"
  using assms by (simp add: restore_fit_def Let_def)

theorem restore_fit_mismatches_witness:
  "\<not> has_been_fit example_model \<and>
   component_models_require_fitting example_model \<and>
   (\<exists>m' evs. restore_fit example_model (example_fit_dict 1) = (Inl (AssertionError []), m', evs)) \<and>
   (\<exists>m'. restore_fit example_model (example_fit_dict 2) =
      (Inr (), m', [Warning_feature_expressions [''log(affinity)''] [''affinity'']]))"
proof -
  have unfit: "\<not> has_been_fit example_model"
    by (simp add: has_been_fit_def example_model_def)
  have rf: "component_models_require_fitting example_model"
    by (simp add: example_model_def)
  have fe: "feature_expressions example_model = [''affinity'']"
    by (simp add: example_model_def)
  have one: "\<exists>m' evs. restore_fit example_model (example_fit_dict 1) = (Inl (AssertionError []), m', evs)"
    using restore_fit_mismatches [OF unfit, of "example_fit_dict 1" _ _ "[[2]]"] rf
    by (simp add: example_fit_dict_def)
  have two: "\<exists>m'. restore_fit example_model (example_fit_dict 2) =
      (Inr (), m', [Warning_feature_expressions [''log(affinity)''] [''affinity'']])"
    using restore_fit_mismatches [OF unfit, of "example_fit_dict 2" _ _ "[[2], [2]]"] rf fe
    by (simp add: example_fit_dict_def numeral_2_eq_2)
  from unfit rf one two show ?thesis by blast
qed

section \<open>Scoring writes to the caller's table\<close>

text \<open>
  C10: when scoring gets as far as the prediction (the model is fit, the three columns are
  there, \<^verbatim>\<open>predict\<close> returns one value per row), the caller's table comes back with
  the column \<^verbatim>\<open>prediction\<close> holding the predictions, whatever happens afterwards; if
  the table had no such column, it is not the table that was passed in.
\<close>

theorem score_from_peptides_df_mutates_input:
  assumes "has_been_fit m"
    and "has_column peptides_df ''peptide''"
    and "has_column peptides_df ''experiment_name''"
    and "has_column peptides_df ''hit''"
    and "predict ev m peptides_df = Inr prediction"
    and "length prediction = len_df peptides_df"
  shows "snd (score_from_peptides_df nl ev m peptides_df include_hit_indices) =
           set_col peptides_df ''prediction'' (map Num prediction) \<and>
         column (snd (score_from_peptides_df nl ev m peptides_df include_hit_indices)) ''prediction'' =
           Inr (map Num prediction) \<and>
         (\<not> has_column peptides_df ''prediction'' \<longrightarrow>
            snd (score_from_peptides_df nl ev m peptides_df include_hit_indices) \<noteq> peptides_df)"
proof -
  have "snd (score_from_peptides_df nl ev m peptides_df include_hit_indices) =
           set_col peptides_df ''prediction'' (map Num prediction)"
    using assms
    by (simp add: score_from_peptides_df_def assign_array_def Let_def
          split: sum.splits prod.splits)
  then show ?thesis
    using set_col_new_differs [of "''prediction''" peptides_df "map Num prediction"]
    by (simp add: has_column_def column_def map_of_set_col)
qed

theorem score_from_peptides_df_mutates_input_witness:
  "has_been_fit example_fitted_model \<and>
   has_column example_peptides ''peptide'' \<and>
   has_column example_peptides ''experiment_name'' \<and>
   has_column example_peptides ''hit'' \<and>
   \<not> has_column example_peptides ''prediction'' \<and>
   snd (score_from_peptides_df (\<lambda>df n c. Inr df) column_evaluator example_fitted_model
          example_peptides False) =
     example_peptides @
       [(''prediction'', [Num (3 / 13), Num (10 / 20), Num (5 / 15), Num (8 / 18), Num (1 / 11),
                          Num (9 / 19), Num (2 / 12), Num (7 / 17), Num (4 / 14), Num (6 / 16)])] \<and>
   snd (score_from_peptides_df (\<lambda>df n c. Inr df) column_evaluator example_fitted_model
          example_peptides False) \<noteq> example_peptides"
proof -
  note h = example_peptides_facts
  have len: "length [3 / 13, 10 / 20, 5 / 15, 8 / 18, 1 / 11, 9 / 19, 2 / 12, 7 / 17, 4 / 14, 6 / (16::rat)] =
      len_df example_peptides"
    by (simp add: h(6))
  note t = score_from_peptides_df_mutates_input [OF h(1) h(2) h(3) h(4) example_prediction len,
      of "\<lambda>df n c. Inr df" False]
  have 1: "snd (score_from_peptides_df (\<lambda>df n c. Inr df) column_evaluator example_fitted_model
          example_peptides False) =
     example_peptides @
       [(''prediction'', [Num (3 / 13), Num (10 / 20), Num (5 / 15), Num (8 / 18), Num (1 / 11),
                          Num (9 / 19), Num (2 / 12), Num (7 / 17), Num (4 / 14), Num (6 / 16)])]"
    using t [THEN conjunct1] by (simp add: example_peptides_def)
  have 2: "snd (score_from_peptides_df (\<lambda>df n c. Inr df) column_evaluator example_fitted_model
          example_peptides False) \<noteq> example_peptides"
    using t h(7) by blast
  from h 1 2 show ?thesis by blast
qed

section \<open>Scoring\<close>

lemma hit_sum_labels:
  "list_all (\<lambda>h. h = Num 0 \<or> h = Num 1) hit \<Longrightarrow>
   hit_sum hit = Inr (of_nat (length (filter (\<lambda>h. h = Num 1) hit)))"
  by (induction hit) auto

lemma is_hit_label: "h = Num 0 \<or> h = Num 1 \<Longrightarrow> is_hit h \<longleftrightarrow> h = Num 1"
  by auto

lemma filter_zip_nth:
  "length rs = length hs \<Longrightarrow>
   map fst (filter (\<lambda>(r, h). P h) (zip rs hs)) =
   map (\<lambda>i. rs ! i) (filter (\<lambda>i. P (hs ! i)) [0..<length hs])"
proof (induction rs hs rule: list_induct2)
  case Nil
  show ?case by simp
next
  case (Cons r rs h hs)
  show ?case using Cons.IH
    by (simp add: upt_Suc_shift filter_map o_def del: upt_Suc)
qed

lemma length_filter_nth:
  "length (filter P xs) = length (filter (\<lambda>i. P (xs ! i)) [0..<length xs])"
proof (induction xs)
  case Nil
  show ?case by simp
next
  case (Cons x xs)
  show ?case using Cons.IH
    by (simp add: upt_Suc_shift filter_map o_def del: upt_Suc)
qed

lemma length_filter_sort:
  "length (filter P (sort xs)) = length (filter P (xs :: rat list))"
proof -
  have "mset (filter P (sort xs)) = mset (filter P xs)" by simp
  then show ?thesis by (metis size_mset)
qed

lemma rank_descending_nth:
  assumes "i < length ps"
  shows "rank_descending ps ! i =
           of_nat (length (filter (\<lambda>j. ps ! j > ps ! i) [0..<length ps])) +
           (of_nat (length (filter (\<lambda>j. ps ! j = ps ! i) [0..<length ps])) + 1) / 2"
  using assms
  by (simp add: rank_descending_def length_filter_nth [of "\<lambda>q. ps ! i < q" ps]
        length_filter_nth [of "\<lambda>q. q = ps ! i" ps])

lemma strictly_decreasing_count:
  fixes ys :: "rat list"
  assumes "sorted_wrt (\<lambda>a b. a > b) ys" and "k < length ys"
  shows "length (filter (\<lambda>q. q > ys ! k) ys) = k"
proof -
  have "{j. j < length ys \<and> ys ! j > ys ! k} = {..<k}"
  proof (rule set_eqI)
    fix j
    show "j \<in> {j. j < length ys \<and> ys ! j > ys ! k} \<longleftrightarrow> j \<in> {..<k}"
    proof (cases "j < k")
      case True
      then have "ys ! j > ys ! k" using assms sorted_wrt_nth_less by blast
      with True assms(2) show ?thesis by simp
    next
      case False
      show ?thesis
      proof (cases "j = k")
        case True
        then show ?thesis by simp
      next
        case ne: False
        with False have kj: "k < j" by simp
        have "\<not> (j < length ys \<and> ys ! j > ys ! k)"
        proof
          assume a: "j < length ys \<and> ys ! j > ys ! k"
          then have "ys ! k > ys ! j" using assms(1) kj sorted_wrt_nth_less by blast
          with a show False by simp
        qed
        with False show ?thesis by simp
      qed
    qed
  qed
  then show ?thesis by (simp add: length_filter_conv_card)
qed

lemma distinct_count_one:
  "distinct ps \<Longrightarrow> x \<in> set ps \<Longrightarrow> length (filter (\<lambda>q. q = x) ps) = 1"
  by (induction ps) (auto simp: filter_empty_conv)

lemma rank_is_position_in_descending_order:
  fixes ps :: "rat list"
  assumes "distinct ps" and "i < length ps"
  shows "\<exists>pos < length ps. rank_descending ps ! i = of_nat pos + 1 \<and>
           rev (sort ps) ! pos = ps ! i"
proof -
  let ?ys = "rev (sort ps)"
  have dec: "sorted_wrt (\<lambda>a b. a > b) ?ys"
    using assms(1) by (simp add: sorted_wrt_rev strict_sorted_iff)
  have "ps ! i \<in> set ?ys" using assms(2) by simp
  then obtain pos where pos: "pos < length ?ys" "?ys ! pos = ps ! i"
    by (auto simp: in_set_conv_nth simp del: set_rev set_sort length_rev length_sort)
  have "mset (filter (\<lambda>q. q > ps ! i) ?ys) = mset (filter (\<lambda>q. q > ps ! i) ps)" by simp
  then have "length (filter (\<lambda>q. q > ps ! i) ps) = length (filter (\<lambda>q. q > ps ! i) ?ys)"
    by (metis size_mset)
  also have "\<dots> = pos" using strictly_decreasing_count [OF dec pos(1)] pos(2) by simp
  finally have greater: "length (filter (\<lambda>q. q > ps ! i) ps) = pos" .
  have equal: "length (filter (\<lambda>q. q = ps ! i) ps) = 1"
    using assms by (simp add: distinct_count_one)
  have "rank_descending ps ! i = of_nat pos + 1"
    using assms(2) greater equal by (simp add: rank_descending_def)
  with pos show ?thesis by auto
qed

text \<open>
  C1: on a fit model and a table with the three columns whose hit labels are 0 or 1 (and
  for which \<^verbatim>\<open>predict\<close> returns one value per row), scoring with hit indices returns
  \<^item> as \<^verbatim>\<open>hit_indices\<close> the ranks of the rows labelled 1, sorted ascending,
  \<^item> as \<^verbatim>\<open>total_peptides\<close> the number of rows,
  \<^item> as \<^verbatim>\<open>score\<close> the number of rows labelled 1 whose rank is at most \<open>k\<close>, divided
    by \<open>k\<close>, where \<open>k\<close> is the number of rows labelled 1 (\<^verbatim>\<open>nan\<close> when there is
    none).
  The rank of a row is one plus the number of rows with a greater prediction, tied rows
  sharing the average of their positions; when the predictions are pairwise distinct it
  is the row's 1-based position in the descending order of the predictions. In particular,
  for ten rows whose hits have the ranks 1 and 3 the result is \<^verbatim>\<open>hit_indices = [1, 3]\<close>,
  \<^verbatim>\<open>total_peptides = 10\<close>, \<^verbatim>\<open>score = 1/2\<close>.
\<close>

theorem score_from_peptides_df_ranks:
  assumes "has_been_fit m"
    and "has_column peptides_df ''peptide''"
    and "has_column peptides_df ''experiment_name''"
    and "column peptides_df ''hit'' = Inr hit"
    and "predict ev m peptides_df = Inr prediction"
    and "length prediction = len_df peptides_df"
    and "length hit = len_df peptides_df"
    and "list_all (\<lambda>h. h = Num 0 \<or> h = Num 1) hit"
  shows
    "fst (score_from_peptides_df nl ev m peptides_df True) =
       Inr \<lparr>score =
              (if length (filter (\<lambda>h. h = Num 1) hit) = 0 then Null
               else Num (of_nat (length (filter
                            (\<lambda>i. hit ! i = Num 1 \<and>
                                 rank_descending prediction ! i \<le>
                                   of_nat (length (filter (\<lambda>h. h = Num 1) hit)))
                            [0..<len_df peptides_df])) /
                         of_nat (length (filter (\<lambda>h. h = Num 1) hit)))),
            hit_indices =
              Some (sort (map (\<lambda>i. rank_descending prediction ! i)
                            (filter (\<lambda>i. hit ! i = Num 1) [0..<len_df peptides_df]))),
            total_peptides = Some (len_df peptides_df)\<rparr> \<and>
     (\<forall>i < len_df peptides_df.
        rank_descending prediction ! i =
          of_nat (length (filter (\<lambda>j. prediction ! j > prediction ! i) [0..<len_df peptides_df])) +
          (of_nat (length (filter (\<lambda>j. prediction ! j = prediction ! i)
                             [0..<len_df peptides_df])) + 1) / 2) \<and>
     (distinct prediction \<longrightarrow>
        (\<forall>i < len_df peptides_df. \<exists>pos < len_df peptides_df.
           rank_descending prediction ! i = of_nat pos + 1 \<and>
           rev (sort prediction) ! pos = prediction ! i)) \<and>
     (len_df peptides_df = 10 \<and>
      sort (map (\<lambda>i. rank_descending prediction ! i)
              (filter (\<lambda>i. hit ! i = Num 1) [0..<len_df peptides_df])) = [1, 3] \<longrightarrow>
        fst (score_from_peptides_df nl ev m peptides_df True) =
          Inr \<lparr>score = Num (1 / 2), hit_indices = Some [1, 3], total_peptides = Some 10\<rparr>)"
proof -
  let ?n = "len_df peptides_df"
  let ?k = "length (filter (\<lambda>h. h = Num 1) hit)"
  let ?ranks = "rank_descending prediction"
  let ?df = "set_col peptides_df ''prediction'' (map Num prediction)"
  from assms(4) have hitcol: "map_of peptides_df ''hit'' = Some hit"
    by (simp add: column_def split: option.splits)
  then have ne: "peptides_df \<noteq> []" by auto
  have hascol: "has_column peptides_df ''hit''"
    using hitcol by (auto simp: has_column_def dest: map_of_SomeD intro: rev_image_eqI)
  have assign: "assign_array peptides_df ''prediction'' (map Num prediction) = Inr ?df"
    using assms(6) by (simp add: assign_array_def)
  have col': "column ?df ''hit'' = Inr hit"
    using hitcol by (simp add: column_def map_of_set_col_other)
  have len': "len_df ?df = ?n"
    using ne assms(6) by (simp add: len_df_set_col)
  have sum: "hit_sum hit = Inr (of_nat ?k)"
    using assms(8) by (rule hit_sum_labels)
  have lenr: "length ?ranks = length hit"
    using assms(6,7) by (simp add: rank_descending_def)
  have hits_eq: "filter (\<lambda>i. is_hit (hit ! i)) [0..<length hit] =
                 filter (\<lambda>i. hit ! i = Num 1) [0..<length hit]"
  proof (rule filter_cong [OF refl])
    fix i assume "i \<in> set [0..<length hit]"
    then have "hit ! i \<in> set hit" by simp
    with assms(8) have "hit ! i = Num 0 \<or> hit ! i = Num 1" by (auto simp: list_all_iff)
    then show "is_hit (hit ! i) \<longleftrightarrow> hit ! i = Num 1" by (rule is_hit_label)
  qed
  have indices: "map fst (filter (\<lambda>(r, h). is_hit h) (zip ?ranks hit)) =
                 map (\<lambda>i. ?ranks ! i) (filter (\<lambda>i. hit ! i = Num 1) [0..<?n])"
    using filter_zip_nth [OF lenr, of is_hit] hits_eq assms(7) by simp
  have count: "length (filter (\<lambda>r. r \<le> of_nat ?k)
                  (sort (map (\<lambda>i. ?ranks ! i) (filter (\<lambda>i. hit ! i = Num 1) [0..<?n])))) =
               length (filter (\<lambda>i. hit ! i = Num 1 \<and> ?ranks ! i \<le> of_nat ?k) [0..<?n])"
    by (simp add: length_filter_sort filter_map o_def)
  have main: "fst (score_from_peptides_df nl ev m peptides_df True) =
       Inr \<lparr>score = (if ?k = 0 then Null
               else Num (of_nat (length (filter (\<lambda>i. hit ! i = Num 1 \<and> ?ranks ! i \<le> of_nat ?k)
                            [0..<?n])) / of_nat ?k)),
            hit_indices = Some (sort (map (\<lambda>i. ?ranks ! i) (filter (\<lambda>i. hit ! i = Num 1) [0..<?n]))),
            total_peptides = Some ?n\<rparr>"
    using assms(1,2,3) hascol assms(5) assign col' sum
    by (simp add: score_from_peptides_df_def Let_def indices count len')
  have ranks: "\<forall>i < ?n. ?ranks ! i =
          of_nat (length (filter (\<lambda>j. prediction ! j > prediction ! i) [0..<?n])) +
          (of_nat (length (filter (\<lambda>j. prediction ! j = prediction ! i) [0..<?n])) + 1) / 2"
    using rank_descending_nth [of _ prediction] assms(6) by simp
  have positions: "distinct prediction \<longrightarrow>
        (\<forall>i < ?n. \<exists>pos < ?n. ?ranks ! i = of_nat pos + 1 \<and>
           rev (sort prediction) ! pos = prediction ! i)"
    using rank_is_position_in_descending_order [of prediction] assms(6) by simp
  have scenario: "?n = 10 \<and>
      sort (map (\<lambda>i. ?ranks ! i) (filter (\<lambda>i. hit ! i = Num 1) [0..<?n])) = [1, 3] \<longrightarrow>
        fst (score_from_peptides_df nl ev m peptides_df True) =
          Inr \<lparr>score = Num (1 / 2), hit_indices = Some [1, 3], total_peptides = Some 10\<rparr>"
  proof
    assume a: "?n = 10 \<and>
      sort (map (\<lambda>i. ?ranks ! i) (filter (\<lambda>i. hit ! i = Num 1) [0..<?n])) = [1, 3]"
    have "?k = length (filter (\<lambda>i. hit ! i = Num 1) [0..<?n])"
      using length_filter_nth [of "\<lambda>h. h = Num 1" hit] assms(7) by simp
    also have "\<dots> = length (sort (map (\<lambda>i. ?ranks ! i)
                                     (filter (\<lambda>i. hit ! i = Num 1) [0..<?n])))"
      by simp
    also have "\<dots> = 2"
      using arg_cong [where f = length, OF conjunct2 [OF a]] by simp
    finally have k: "?k = 2" .
    have "length (filter (\<lambda>i. hit ! i = Num 1 \<and> ?ranks ! i \<le> of_nat ?k) [0..<?n]) =
          length (filter (\<lambda>r. r \<le> of_nat ?k) [1, 3 :: rat])"
      using count conjunct2 [OF a] by (simp only:)
    also have "\<dots> = 1" using k by simp
    finally have c: "length (filter (\<lambda>i. hit ! i = Num 1 \<and> ?ranks ! i \<le> of_nat ?k) [0..<?n]) = 1" .
    have s: "(if ?k = 0 then Null
               else Num (of_nat (length (filter (\<lambda>i. hit ! i = Num 1 \<and> ?ranks ! i \<le> of_nat ?k)
                            [0..<?n])) / of_nat ?k)) = Num (1 / 2)"
      using c by (simp add: k)
    from main have "fst (score_from_peptides_df nl ev m peptides_df True) =
          Inr \<lparr>score = Num (1 / 2),
               hit_indices = Some (sort (map (\<lambda>i. ?ranks ! i)
                                          (filter (\<lambda>i. hit ! i = Num 1) [0..<?n]))),
               total_peptides = Some ?n\<rparr>"
      by (simp only: s)
    then have "fst (score_from_peptides_df nl ev m peptides_df True) =
          Inr \<lparr>score = Num (1 / 2), hit_indices = Some [1, 3], total_peptides = Some ?n\<rparr>"
      by (simp only: conjunct2 [OF a])
    then show "fst (score_from_peptides_df nl ev m peptides_df True) =
          Inr \<lparr>score = Num (1 / 2), hit_indices = Some [1, 3], total_peptides = Some 10\<rparr>"
      by (simp only: conjunct1 [OF a])
  qed
  from main ranks positions scenario show ?thesis by blast
qed

theorem score_from_peptides_df_ranks_witness:
  "has_been_fit example_fitted_model \<and>
   has_column example_peptides ''peptide'' \<and>
   has_column example_peptides ''experiment_name'' \<and>
   column example_peptides ''hit'' =
     Inr [Num 0, Num 1, Num 0, Num 1, Num 0, Num 0, Num 0, Num 0, Num 0, Num 0] \<and>
   predict column_evaluator example_fitted_model example_peptides =
     Inr [3 / 13, 10 / 20, 5 / 15, 8 / 18, 1 / 11, 9 / 19, 2 / 12, 7 / 17, 4 / 14, 6 / 16] \<and>
   len_df example_peptides = 10 \<and>
   fst (score_from_peptides_df (\<lambda>df n c. Inr df) column_evaluator example_fitted_model
          example_peptides True) =
     Inr \<lparr>score = Num (1 / 2), hit_indices = Some [1, 3], total_peptides = Some 10\<rparr>"
proof -
  note h = example_peptides_facts
  have "fst (score_from_peptides_df (\<lambda>df n c. Inr df) column_evaluator example_fitted_model
          example_peptides True) =
     Inr \<lparr>score = Num (1 / 2), hit_indices = Some [1, 3], total_peptides = Some 10\<rparr>"
    using score_from_peptides_df_ranks [OF h(1) h(2) h(3) h(5) example_prediction,
            of "\<lambda>df n c. Inr df", THEN conjunct1]
    by (simp add: h(6) rank_descending_def upt_rec)
  with h example_prediction show ?thesis by simp
qed

section \<open>Two-fold prediction\<close>

lemma two_fold_fit_stores_two_pairs:
  assumes "fit skf ev m0 hits_df = (Inr (), m, evs)"
    and "component_models_require_fitting m0"
    and "ensemble_size m0 = None \<or> ensemble_size m0 = Some 0"
    and "column hits_df ''experiment_name'' = Inr labels"
    and "skf (random_state m0) labels = Inr [split1, split2]"
  shows "\<exists>cms1 cms2 p1 p2.
           trained_component_models m = Some [cms1, cms2] \<and>
           presentation_models_predictors m = Some [p1, p2]"
proof -
  from fit_establishes_fit_state [OF assms(1)] assms(2,4,5) obtain tcm ps where
    st: "trained_component_models m = Some tcm" "presentation_models_predictors m = Some ps"
        "length tcm = 2" "length ps = 2" by auto
  from st(3) obtain cms1 cms2 where "tcm = [cms1, cms2]"
    by (auto simp: numeral_2_eq_2 length_Suc_conv)
  moreover from st(4) obtain p1 p2 where "ps = [p1, p2]"
    by (auto simp: numeral_2_eq_2 length_Suc_conv)
  ultimately show ?thesis using st(1,2) by blast
qed

lemma digit_string_1: "digit_string (Suc 0) = ''1''"
  by (simp add: digit_string.simps [of "Suc 0"])

lemma digit_string_2: "digit_string (Suc (Suc 0)) = ''2''"
  by (simp add: digit_string.simps [of "Suc (Suc 0)"])

lemma mean_of_two:
  "length a = length b \<Longrightarrow>
   mean_axis0 [a, b] = Inr (map (\<lambda>(x, y). (x + y) / 2) (zip a b))"
  by (auto simp: mean_axis0_def intro!: nth_equalityI)

lemma mean_of_two_ragged: "length a \<noteq> length b \<Longrightarrow> mean_axis0 [a, b] = Inl ValueError"
  by (auto simp: mean_axis0_def)

lemma predict_two_pairs:
  assumes "has_been_fit m"
    and "has_column peptides_df ''experiment_name''"
    and "has_column peptides_df ''peptide''"
    and "trained_component_models m = Some [cms1, cms2]"
    and "presentation_models_predictors m = Some [p1, p2]"
    and "fold_features ev m cms1 peptides_df = Inr x1"
    and "fold_features ev m cms2 peptides_df = Inr x2"
    and "length (predict_proba1 p1 (df_values x1)) = length (predict_proba1 p2 (df_values x2))"
  shows "predict ev m peptides_df =
           Inr (map (\<lambda>(a, b). (a + b) / 2)
                  (zip (predict_proba1 p1 (df_values x1)) (predict_proba1 p2 (df_values x2))))"
  using assms
  by (simp add: predict_def predict_to_df_def prediction_col_name_def digit_string_1
        digit_string_2 mean_of_two)

text \<open>
  C3: a model fit in two-fold mode (the component models require fitting, no ensemble size,
  and the splitter gives its two splits) stores two (component models, predictor) pairs,
  and on every table with the two columns for which both folds produce features and the
  two predictors answer with equally many values, \<^verbatim>\<open>predict\<close> is the elementwise
  arithmetic mean of the two predictors' probabilities.
\<close>

theorem two_fold_predict_is_mean:
  assumes "fit skf ev m0 hits_df = (Inr (), m, evs)"
    and "component_models_require_fitting m0"
    and "ensemble_size m0 = None \<or> ensemble_size m0 = Some 0"
    and "column hits_df ''experiment_name'' = Inr labels"
    and "skf (random_state m0) labels = Inr [split1, split2]"
    and "has_column peptides_df ''experiment_name''"
    and "has_column peptides_df ''peptide''"
  shows "\<exists>cms1 cms2 p1 p2.
           trained_component_models m = Some [cms1, cms2] \<and>
           presentation_models_predictors m = Some [p1, p2] \<and>
           (\<forall>x1 x2.
              fold_features ev m cms1 peptides_df = Inr x1 \<and>
              fold_features ev m cms2 peptides_df = Inr x2 \<and>
              length (predict_proba1 p1 (df_values x1)) =
                length (predict_proba1 p2 (df_values x2)) \<longrightarrow>
              predict ev m peptides_df =
                Inr (map (\<lambda>(a, b). (a + b) / 2)
                       (zip (predict_proba1 p1 (df_values x1))
                            (predict_proba1 p2 (df_values x2)))))"
proof -
  from two_fold_fit_stores_two_pairs [OF assms(1-5)] obtain cms1 cms2 p1 p2 where
    shape: "trained_component_models m = Some [cms1, cms2]"
           "presentation_models_predictors m = Some [p1, p2]" by blast
  have fitted: "has_been_fit m" using fit_success_has_been_fit [OF assms(1)] .
  have "\<forall>x1 x2.
              fold_features ev m cms1 peptides_df = Inr x1 \<and>
              fold_features ev m cms2 peptides_df = Inr x2 \<and>
              length (predict_proba1 p1 (df_values x1)) =
                length (predict_proba1 p2 (df_values x2)) \<longrightarrow>
              predict ev m peptides_df =
                Inr (map (\<lambda>(a, b). (a + b) / 2)
                       (zip (predict_proba1 p1 (df_values x1))
                            (predict_proba1 p2 (df_values x2))))"
    using predict_two_pairs [OF fitted assms(6,7) shape] by blast
  with shape show ?thesis by blast
qed

theorem two_fold_predict_is_mean_witness:
  "(\<exists>evs. fit example_splitter column_evaluator example_model example_hits =
            (Inr (), example_two_fold_model, evs)) \<and>
   component_models_require_fitting example_model \<and>
   ensemble_size example_model = None \<and>
   column example_hits ''experiment_name'' =
     Inr [Str ''e1'', Str ''e1'', Str ''e1'', Str ''e2'', Str ''e2''] \<and>
   has_column example_hits ''experiment_name'' \<and>
   has_column example_hits ''peptide'' \<and>
   predict column_evaluator example_two_fold_model example_hits =
     Inr [(10 / 16 + 11 / 15) / 2, (11 / 17 + 12 / 16) / 2, (11 / 17 + 12 / 16) / 2,
          (11 / 17 + 12 / 16) / 2, (12 / 18 + 13 / 17) / 2]"
proof -
  obtain evs where f: "fit example_splitter column_evaluator example_model example_hits =
            (Inr (), example_two_fold_model, evs)"
    using example_fit_result by blast
  have rf: "component_models_require_fitting example_model"
    and es: "ensemble_size example_model = None"
    by (simp_all add: example_model_def)
  have labels: "column example_hits ''experiment_name'' =
     Inr [Str ''e1'', Str ''e1'', Str ''e1'', Str ''e2'', Str ''e2'']"
    and c1: "has_column example_hits ''experiment_name''"
    and c2: "has_column example_hits ''peptide''"
    by (simp_all add: example_hits_def column_def has_column_def)
  have sp: "example_splitter (random_state example_model)
              [Str ''e1'', Str ''e1'', Str ''e1'', Str ''e2'', Str ''e2''] =
            Inr [([1, 4], [0, 2, 3]), ([0, 2, 3], [1, 4])]"
    by (simp add: example_splitter_def)
  from two_fold_predict_is_mean [OF f rf disjI1 [OF es] labels sp c1 c2]
  obtain cms1 cms2 p1 p2 where
    shape: "trained_component_models example_two_fold_model = Some [cms1, cms2]"
           "presentation_models_predictors example_two_fold_model = Some [p1, p2]"
    and mean: "\<And>x1 x2.
              fold_features column_evaluator example_two_fold_model cms1 example_hits = Inr x1 \<Longrightarrow>
              fold_features column_evaluator example_two_fold_model cms2 example_hits = Inr x2 \<Longrightarrow>
              length (predict_proba1 p1 (df_values x1)) =
                length (predict_proba1 p2 (df_values x2)) \<Longrightarrow>
              predict column_evaluator example_two_fold_model example_hits =
                Inr (map (\<lambda>(a, b). (a + b) / 2)
                       (zip (predict_proba1 p1 (df_values x1))
                            (predict_proba1 p2 (df_values x2))))"
    by blast
  from shape have stored:
    "cms1 = [example_component ''affinity'' True 2]" "cms2 = [example_component ''affinity'' True 3]"
    "p1 = example_fitted_predictor 6" "p2 = example_fitted_predictor 4"
    by (simp_all add: example_two_fold_model_def)
  have x1: "fold_features column_evaluator example_two_fold_model cms1 example_hits =
              Inr [(''affinity'', [Num 10, Num 11, Num 11, Num 11, Num 12])]"
    and x2: "fold_features column_evaluator example_two_fold_model cms2 example_hits =
              Inr [(''affinity'', [Num 11, Num 12, Num 12, Num 12, Num 13])]"
    by (simp_all add: stored example_two_fold_model_def example_model_def example_hits_def
          predict_unfold)
  have "predict column_evaluator example_two_fold_model example_hits =
     Inr [(10 / 16 + 11 / 15) / 2, (11 / 17 + 12 / 16) / 2, (11 / 17 + 12 / 16) / 2,
          (11 / 17 + 12 / 16) / 2, (12 / 18 + 13 / 17) / 2]"
    using mean [OF x1 x2]
    by (simp add: stored example_fitted_predictor_def df_values_def df_row_def len_df_def upt_rec)
  with f rf es labels c1 c2 show ?thesis by blast
qed

section \<open>Missing values\<close>

lemma set_set_col: "set (set_col df c vs) \<subseteq> insert (c, vs) (set df)"
  by (induction df c vs rule: set_col.induct) auto

lemma clean_set_col:
  "clean n df \<Longrightarrow> length vs = n \<Longrightarrow> Null \<notin> set vs \<Longrightarrow> clean n (set_col df c vs)"
  using set_set_col [of df c vs] by (auto simp: clean_def)

lemma clean_len_df: "clean n df \<Longrightarrow> df \<noteq> [] \<Longrightarrow> len_df df = n"
  by (cases df) (auto simp: clean_def len_df_def)

lemma clean_assign_series:
  assumes "clean n df" and "length vs = n" and "Null \<notin> set vs"
  shows "clean n (assign_series df c vs)"
proof (cases "df = []")
  case True
  with assms show ?thesis by (simp add: assign_series_def clean_def)
next
  case False
  with assms(1) have "len_df df = n" by (rule clean_len_df)
  with assms False show ?thesis by (simp add: assign_series_def clean_set_col)
qed

lemma evaluate_loop_clean:
  "evaluate_loop ev es input_df result = Inr res \<Longrightarrow> clean (len_df input_df) result \<Longrightarrow>
   clean (len_df input_df) res"
proof (induction es arbitrary: result)
  case Nil
  then show ?case by simp
next
  case (Cons e es)
  from Cons.prems(1) obtain vs where vs: "ev e input_df = Inr vs"
    by (cases "ev e input_df") auto
  from Cons.prems(1) vs have len: "length vs = len_df input_df"
    by (auto split: if_splits)
  from Cons.prems(1) vs len have nn: "Null \<notin> set vs"
    by (auto simp: assert_no_null_def split: if_splits)
  from Cons.prems(1) vs len nn have
    "evaluate_loop ev es input_df (assign_series result e vs) = Inr res"
    by (simp add: assert_no_null_def)
  moreover have "clean (len_df input_df) (assign_series result e vs)"
    using Cons.prems(2) len nn by (rule clean_assign_series)
  ultimately show ?case by (rule Cons.IH)
qed

lemma evaluate_loop_values:
  "evaluate_loop ev es input_df result = Inr res \<Longrightarrow>
   \<forall>e \<in> set es. \<exists>vs. ev e input_df = Inr vs \<and> length vs = len_df input_df \<and> Null \<notin> set vs"
proof (induction es arbitrary: result)
  case Nil
  then show ?case by simp
next
  case (Cons e es)
  from Cons.prems(1) obtain vs where vs: "ev e input_df = Inr vs"
    by (cases "ev e input_df") auto
  from Cons.prems(1) vs have len: "length vs = len_df input_df"
    by (auto split: if_splits)
  from Cons.prems(1) vs len have nn: "Null \<notin> set vs"
    by (auto simp: assert_no_null_def split: if_splits)
  from Cons.prems(1) vs len nn have
    "evaluate_loop ev es input_df (assign_series result e vs) = Inr res"
    by (simp add: assert_no_null_def)
  from Cons.IH [OF this] vs len nn show ?case by simp
qed

lemma evaluate_loop_missing:
  assumes "\<forall>e \<in> set es. \<exists>vs. ev e input_df = Inr vs \<and> length vs = len_df input_df"
    and "\<exists>e \<in> set es. \<exists>vs. ev e input_df = Inr vs \<and> Null \<in> set vs"
  shows "\<exists>e \<in> set es. evaluate_loop ev es input_df result = Inl (AssertionError [e]) \<and>
           (\<exists>vs. ev e input_df = Inr vs \<and> Null \<in> set vs)"
  using assms
proof (induction es arbitrary: result)
  case Nil
  then show ?case by simp
next
  case (Cons e es)
  from Cons.prems(1) obtain vs where vs: "ev e input_df = Inr vs" "length vs = len_df input_df"
    by auto
  show ?case
  proof (cases "Null \<in> set vs")
    case True
    with vs show ?thesis by (auto simp: assert_no_null_def)
  next
    case False
    with Cons.prems(2) vs have ex: "\<exists>e \<in> set es. \<exists>vs. ev e input_df = Inr vs \<and> Null \<in> set vs"
      by auto
    from Cons.prems(1) have all: "\<forall>e \<in> set es. \<exists>vs. ev e input_df = Inr vs \<and> length vs = len_df input_df"
      by simp
    from Cons.IH [OF all ex, of "assign_series result e vs"] False vs
    show ?thesis by (auto simp: assert_no_null_def)
  qed
qed


lemma set_col_member: "(c, vs) \<in> set (set_col df c vs)"
  by (induction df c vs rule: set_col.induct) auto

lemma map_nth_filter:
  "map (\<lambda>i. xs ! i) (filter (\<lambda>i. P (xs ! i)) [0..<length xs]) = filter P xs"
proof (induction xs)
  case Nil
  show ?case by simp
next
  case (Cons x xs)
  show ?case using Cons.IH
    by (simp add: upt_Suc_shift filter_map o_def del: upt_Suc)
qed

lemma map_of_select_rows:
  "map_of (select_rows df idx) c = map_option (\<lambda>vs. map (\<lambda>i. vs ! i) idx) (map_of df c)"
  by (induction df) (auto simp: select_rows_def)

lemma set_del_col: "set (del_col df c) \<subseteq> set df"
  by (auto simp: del_col_def)

text \<open>The frame to which \<open>drop_nulls_and_warn\<close> is applied: clean feature columns and the labels.\<close>

lemma labelled_frame:
  assumes "clean n df" and "df = [] \<or> length hit = n"
  shows "len_df (set_col df ''hit'' hit) = length hit"
    and "\<forall>(c, vs) \<in> set (set_col df ''hit'' hit). length vs = length hit"
    and "\<forall>i < length hit. row_has_null (set_col df ''hit'' hit) i \<longleftrightarrow> hit ! i = Null"
proof -
  let ?df = "set_col df ''hit'' hit"
  have cols: "\<And>c vs. (c, vs) \<in> set ?df \<Longrightarrow>
                 vs = hit \<or> (df \<noteq> [] \<and> length vs = length hit \<and> Null \<notin> set vs)"
    using set_set_col [of df "''hit''" hit] assms by (auto simp: clean_def)
  show lens: "\<forall>(c, vs) \<in> set ?df. length vs = length hit"
    using cols by auto
  have "?df \<noteq> []" using set_col_member [of "''hit''" hit df] by auto
  then obtain c vs rest where first: "?df = (c, vs) # rest" by (cases ?df) auto
  then have "(c, vs) \<in> set ?df" by simp
  with lens have "length vs = length hit" by auto
  with first show "len_df ?df = length hit" by (simp add: len_df_def)
  show "\<forall>i < length hit. row_has_null ?df i \<longleftrightarrow> hit ! i = Null"
  proof (intro allI impI)
    fix i assume i: "i < length hit"
    show "row_has_null ?df i \<longleftrightarrow> hit ! i = Null"
    proof
      assume "row_has_null ?df i"
      then obtain c vs where m: "(c, vs) \<in> set ?df" "vs ! i = Null"
        by (auto simp: row_has_null_def df_row_def)
      from cols [OF m(1)] show "hit ! i = Null"
      proof
        assume "vs = hit" with m(2) show ?thesis by simp
      next
        assume a: "df \<noteq> [] \<and> length vs = length hit \<and> Null \<notin> set vs"
        with i have "vs ! i \<in> set vs" by simp
        with a m(2) show ?thesis by simp
      qed
    next
      assume "hit ! i = Null"
      moreover have "(''hit'', hit) \<in> set ?df" by (rule set_col_member)
      ultimately show "row_has_null ?df i"
        by (force simp: row_has_null_def df_row_def)
    qed
  qed
qed

lemma drop_nulls_labelled:
  assumes "clean n df" and "df = [] \<or> length hit = n"
    and "drop_nulls_and_warn (set_col df ''hit'' hit) = (new_df, evs)"
  shows "map_of new_df ''hit'' = Some (filter (\<lambda>v. v \<noteq> Null) hit)"
    and "\<forall>(c, vs) \<in> set new_df. Null \<notin> set vs \<and>
            length vs = length (filter (\<lambda>v. v \<noteq> Null) hit)"
    and "evs = (if Null \<in> set hit
                then [Warning_dropped_rows (filter (\<lambda>i. hit ! i = Null) [0..<length hit])]
                else [])"
proof -
  let ?df = "set_col df ''hit'' hit"
  note lf = labelled_frame [OF assms(1,2)]
  have dropped: "filter (\<lambda>i. row_has_null ?df i) [0..<len_df ?df] =
                 filter (\<lambda>i. hit ! i = Null) [0..<length hit]"
    using lf(1,3) by (auto intro: filter_cong)
  have kept: "filter (\<lambda>i. \<not> row_has_null ?df i) [0..<len_df ?df] =
              filter (\<lambda>i. hit ! i \<noteq> Null) [0..<length hit]"
    using lf(1,3) by (auto intro: filter_cong)
  let ?kept = "filter (\<lambda>i. hit ! i \<noteq> Null) [0..<length hit]"
  have any: "filter (\<lambda>i. hit ! i = Null) [0..<length hit] \<noteq> [] \<longleftrightarrow> Null \<in> set hit"
    by (auto simp: filter_empty_conv in_set_conv_nth)
  have lenkept: "length ?kept = length (filter (\<lambda>v. v \<noteq> Null) hit)"
    using map_nth_filter [of hit "\<lambda>v. v \<noteq> Null"] by (metis length_map)
  show "evs = (if Null \<in> set hit
                then [Warning_dropped_rows (filter (\<lambda>i. hit ! i = Null) [0..<length hit])]
                else [])"
    using assms(3) any by (auto simp: drop_nulls_and_warn_def Let_def dropped kept split: if_splits)
  show "map_of new_df ''hit'' = Some (filter (\<lambda>v. v \<noteq> Null) hit)"
  proof (cases "Null \<in> set hit")
    case True
    with assms(3) any have "new_df = select_rows ?df ?kept"
      by (auto simp: drop_nulls_and_warn_def Let_def dropped kept split: if_splits)
    then show ?thesis
      by (simp add: map_of_select_rows map_of_set_col map_nth_filter [of hit "\<lambda>v. v \<noteq> Null"])
  next
    case False
    with assms(3) any have "new_df = ?df"
      by (auto simp: drop_nulls_and_warn_def Let_def dropped kept split: if_splits)
    moreover from False have "filter (\<lambda>v. v \<noteq> Null) hit = hit"
      by (auto simp: filter_id_conv)
    ultimately show ?thesis by (simp add: map_of_set_col)
  qed
  show "\<forall>(c, vs) \<in> set new_df. Null \<notin> set vs \<and>
            length vs = length (filter (\<lambda>v. v \<noteq> Null) hit)"
  proof (cases "Null \<in> set hit")
    case True
    with assms(3) any have new: "new_df = select_rows ?df ?kept"
      by (auto simp: drop_nulls_and_warn_def Let_def dropped kept split: if_splits)
    show ?thesis
    proof (clarify)
      fix c vs' assume "(c, vs') \<in> set new_df"
      with new obtain vs where m: "(c, vs) \<in> set ?df" "vs' = map (\<lambda>i. vs ! i) ?kept"
        by (auto simp: select_rows_def)
      have "Null \<notin> set vs'"
      proof
        assume "Null \<in> set vs'"
        with m(2) obtain i where i: "i < length hit" "hit ! i \<noteq> Null" "vs ! i = Null" by auto
        from m(1) i(3) have "row_has_null ?df i"
          by (force simp: row_has_null_def df_row_def)
        with lf(3) i(1,2) show False by simp
      qed
      moreover have "length vs' = length (filter (\<lambda>v. v \<noteq> Null) hit)"
        using m(2) lenkept by simp
      ultimately show "Null \<notin> set vs' \<and> length vs' = length (filter (\<lambda>v. v \<noteq> Null) hit)" ..
    qed
  next
    case False
    with assms(3) any have new: "new_df = ?df"
      by (auto simp: drop_nulls_and_warn_def Let_def dropped kept split: if_splits)
    from False have id: "filter (\<lambda>v. v \<noteq> Null) hit = hit"
      by (auto simp: filter_id_conv)
    show ?thesis
    proof (clarify)
      fix c vs assume m: "(c, vs) \<in> set new_df"
      with new lf(2) have len: "length vs = length hit" by auto
      have "Null \<notin> set vs"
      proof
        assume "Null \<in> set vs"
        then obtain i where i: "i < length vs" "vs ! i = Null" by (auto simp: in_set_conv_nth)
        with m new have "row_has_null ?df i" by (force simp: row_has_null_def df_row_def)
        with lf(3) i(1) len have "hit ! i = Null" by simp
        with i(1) len False show False by (metis nth_mem)
      qed
      with len id show "Null \<notin> set vs \<and> length vs = length (filter (\<lambda>v. v \<noteq> Null) hit)" by simp
    qed
  qed
qed


lemma make_features_and_target_success:
  fixes m :: "'b presentation_model"
  assumes "make_features_and_target ev m T = (Inr (x, y), evs)"
    and "column T ''hit'' = Inr hit"
  shows "(\<forall>e \<in> set (feature_expressions m). \<exists>vs. ev e T = Inr vs \<and> Null \<notin> set vs) \<and>
         y = filter (\<lambda>v. v \<noteq> Null) hit \<and>
         (\<forall>(c, vs) \<in> set x. Null \<notin> set vs \<and> length vs = length y) \<and>
         evs = (if Null \<in> set hit
                then [Warning_dropped_rows (filter (\<lambda>i. hit ! i = Null) [0..<length hit])]
                else [])"
proof -
  from assms(1) obtain df where ee: "evaluate_expressions ev m T = Inr df"
    by (cases "evaluate_expressions ev m T") (auto simp: make_features_and_target_def split: if_splits)
  then obtain res where loop: "evaluate_loop ev (feature_expressions m) T [] = Inr res"
    and df: "df = res"
    by (cases "evaluate_loop ev (feature_expressions m) T []")
       (auto simp: evaluate_expressions_def split: if_splits)
  have cl: "clean (len_df T) df"
    using evaluate_loop_clean [OF loop] df by (simp add: clean_def)
  have vals: "\<forall>e \<in> set (feature_expressions m). \<exists>vs. ev e T = Inr vs \<and> Null \<notin> set vs"
    using evaluate_loop_values [OF loop] by blast
  from assms ee obtain df' where aa: "assign_array df ''hit'' hit = Inr df'"
    by (cases "assign_array df ''hit'' hit")
       (auto simp: make_features_and_target_def split: if_splits)
  then have df': "df' = set_col df ''hit'' hit"
    by (auto simp: assign_array_def split: if_splits)
  have shape: "df = [] \<or> length hit = len_df T"
  proof (cases "df = []")
    case True
    then show ?thesis by simp
  next
    case False
    with cl have "len_df df = len_df T" by (rule clean_len_df)
    with aa False show ?thesis by (auto simp: assign_array_def split: if_splits)
  qed
  obtain new_df and warnings :: "'b event list" where
    dr: "drop_nulls_and_warn (set_col df ''hit'' hit) = (new_df, warnings)"
    by (cases "drop_nulls_and_warn (set_col df ''hit'' hit) :: dataframe \<times> 'b event list") auto
  note d = drop_nulls_labelled [OF cl shape dr]
  from assms ee aa df' dr d(1) have res: "x = del_col new_df ''hit''"
    "y = filter (\<lambda>v. v \<noteq> Null) hit" "evs = warnings"
    by (auto simp: make_features_and_target_def column_def split: if_splits)
  have "\<forall>(c, vs) \<in> set x. Null \<notin> set vs \<and> length vs = length y"
    using d(2) res(1,2) set_del_col [of new_df "''hit''"] by auto
  with vals res(2,3) d(3) show ?thesis by simp
qed

lemma make_features_and_target_missing:
  assumes "has_column T ''peptide''" and "has_column T ''hit''"
    and "\<forall>e \<in> set (feature_expressions m). \<exists>vs. ev e T = Inr vs \<and> length vs = len_df T"
    and "\<exists>e \<in> set (feature_expressions m). \<exists>vs. ev e T = Inr vs \<and> Null \<in> set vs"
  shows "\<exists>e \<in> set (feature_expressions m).
           make_features_and_target ev m T = (Inl (AssertionError [e]), []) \<and>
           (\<exists>vs. ev e T = Inr vs \<and> Null \<in> set vs)"
proof -
  from assms(3,4)
    evaluate_loop_missing [where ev = ev and es = "feature_expressions m" and input_df = T
      and result = "[]"]
  obtain e where
    e: "e \<in> set (feature_expressions m)"
       "evaluate_loop ev (feature_expressions m) T [] = Inl (AssertionError [e])"
       "\<exists>vs. ev e T = Inr vs \<and> Null \<in> set vs" by blast
  from e(2) assms(1,2) have "make_features_and_target ev m T = (Inl (AssertionError [e]), [])"
    by (simp add: make_features_and_target_def evaluate_expressions_def)
  with e(1,3) show ?thesis by blast
qed

text \<open>
  C2, as the code has it: when every feature expression evaluates to one value per row of
  the hits-and-decoys table and some value is missing, \<^verbatim>\<open>make_features_and_target\<close>
  raises an assertion error naming such an expression, logs nothing, and
  \<^verbatim>\<open>fit_final_predictor\<close> fits no predictor: the row is not dropped. When
  \<^verbatim>\<open>make_features_and_target\<close> returns, no expression had a missing value, the rows it
  dropped are those whose hit label is missing (with a warning naming them, and only
  then), and the features and labels it hands on hold no missing value.
\<close>

theorem missing_values_stop_fitting:
  "(has_column T ''peptide'' \<and> has_column T ''hit'' \<and>
    (\<forall>e \<in> set (feature_expressions m). \<exists>vs. ev e T = Inr vs \<and> length vs = len_df T) \<and>
    (\<exists>e \<in> set (feature_expressions m). \<exists>vs. ev e T = Inr vs \<and> Null \<in> set vs) \<longrightarrow>
      (\<exists>e \<in> set (feature_expressions m).
         make_features_and_target ev m T = (Inl (AssertionError [e]), []) \<and>
         (\<exists>vs. ev e T = Inr vs \<and> Null \<in> set vs) \<and>
         (\<forall>hits_df cms ds.
            decoy_strategy m = Some ds \<and>
            fst (predict_into cms (make_hits_and_decoys_df hits_df ds)) = Inr T \<longrightarrow>
            fst (fit_final_predictor ev m hits_df cms) = Inl (AssertionError [e])))) \<and>
   (make_features_and_target ev m T = (Inr (x, y), evs) \<and> column T ''hit'' = Inr hit \<longrightarrow>
      (\<forall>e \<in> set (feature_expressions m). \<exists>vs. ev e T = Inr vs \<and> Null \<notin> set vs) \<and>
      y = filter (\<lambda>v. v \<noteq> Null) hit \<and>
      (\<forall>(c, vs) \<in> set x. Null \<notin> set vs \<and> length vs = length y) \<and>
      evs = (if Null \<in> set hit
             then [Warning_dropped_rows (filter (\<lambda>i. hit ! i = Null) [0..<length hit])]
             else []))"
proof (rule conjI; rule impI)
  assume a: "has_column T ''peptide'' \<and> has_column T ''hit'' \<and>
    (\<forall>e \<in> set (feature_expressions m). \<exists>vs. ev e T = Inr vs \<and> length vs = len_df T) \<and>
    (\<exists>e \<in> set (feature_expressions m). \<exists>vs. ev e T = Inr vs \<and> Null \<in> set vs)"
  then obtain e where e: "e \<in> set (feature_expressions m)"
    "make_features_and_target ev m T = (Inl (AssertionError [e]), [])"
    "\<exists>vs. ev e T = Inr vs \<and> Null \<in> set vs"
    using make_features_and_target_missing [of T m ev] by blast
  have "\<forall>hits_df cms ds.
            decoy_strategy m = Some ds \<and>
            fst (predict_into cms (make_hits_and_decoys_df hits_df ds)) = Inr T \<longrightarrow>
            fst (fit_final_predictor ev m hits_df cms) = Inl (AssertionError [e])"
    using e(2) by (auto simp: fit_final_predictor_def split: prod.splits sum.splits)
  with e show "\<exists>e \<in> set (feature_expressions m).
         make_features_and_target ev m T = (Inl (AssertionError [e]), []) \<and>
         (\<exists>vs. ev e T = Inr vs \<and> Null \<in> set vs) \<and>
         (\<forall>hits_df cms ds.
            decoy_strategy m = Some ds \<and>
            fst (predict_into cms (make_hits_and_decoys_df hits_df ds)) = Inr T \<longrightarrow>
            fst (fit_final_predictor ev m hits_df cms) = Inl (AssertionError [e]))"
    by blast
next
  assume "make_features_and_target ev m T = (Inr (x, y), evs) \<and> column T ''hit'' = Inr hit"
  then show "(\<forall>e \<in> set (feature_expressions m). \<exists>vs. ev e T = Inr vs \<and> Null \<notin> set vs) \<and>
      y = filter (\<lambda>v. v \<noteq> Null) hit \<and>
      (\<forall>(c, vs) \<in> set x. Null \<notin> set vs \<and> length vs = length y) \<and>
      evs = (if Null \<in> set hit
             then [Warning_dropped_rows (filter (\<lambda>i. hit ! i = Null) [0..<length hit])]
             else [])"
    using make_features_and_target_success [of ev m T x y evs hit] by blast
qed

lemma example_missing_table_assembled:
  "fst (predict_into (component_models example_single_model)
          (make_hits_and_decoys_df example_missing_hits example_decoys)) =
     Inr example_missing_table"
  by (simp add: example_single_model_def example_model_def example_missing_hits_def
        example_missing_table_def make_hits_and_decoys_df_def example_decoys_def
        assign_scalar_def len_df_def concat_df_def assign_array_def)

lemma example_missing_table_affinity:
  "column_evaluator ''affinity'' example_missing_table =
     Inr [Num 8, Null, Num 9, Num 1, Num 1, Num 1]"
  by (simp add: column_evaluator_def example_missing_table_def)

text \<open>
  C2 in the specification's wording does not hold: of the six rows of
  \<open>example_missing_table\<close> exactly one has a missing feature value, and fitting raises
  an assertion error instead of training on five rows.
\<close>

theorem missing_value_row_counterexample:
  "fst (predict_into (component_models example_single_model)
          (make_hits_and_decoys_df example_missing_hits example_decoys)) =
     Inr example_missing_table \<and>
   column_evaluator ''affinity'' example_missing_table =
     Inr [Num 8, Null, Num 9, Num 1, Num 1, Num 1] \<and>
   make_features_and_target column_evaluator example_single_model example_missing_table =
     (Inl (AssertionError [''affinity'']), []) \<and>
   fst (fit example_splitter column_evaluator example_single_model example_missing_hits) =
     Inl (AssertionError [''affinity''])"
proof -
  have 1: "make_features_and_target column_evaluator example_single_model example_missing_table =
     (Inl (AssertionError [''affinity'']), [])"
    by (simp add: make_features_and_target_def has_column_def example_missing_table_def
          evaluate_expressions_def example_single_model_def example_model_def
          column_evaluator_def len_df_def assert_no_null_def)
  have 2: "fst (fit example_splitter column_evaluator example_single_model example_missing_hits) =
     Inl (AssertionError [''affinity''])"
    by (simp add: fit_def example_single_model_def example_model_def example_missing_hits_def
          has_been_fit_def has_column_def column_def Let_def fit_final_predictor_def
          make_hits_and_decoys_df_def example_decoys_def assign_scalar_def len_df_def concat_df_def
          assign_array_def make_features_and_target_def evaluate_expressions_def
          column_evaluator_def assert_no_null_def)
  from example_missing_table_assembled example_missing_table_affinity 1 2 show ?thesis by blast
qed

theorem missing_values_stop_fitting_witness:
  "has_column example_missing_table ''peptide'' \<and> has_column example_missing_table ''hit'' \<and>
   feature_expressions example_single_model = [''affinity''] \<and>
   column_evaluator ''affinity'' example_missing_table =
     Inr [Num 8, Null, Num 9, Num 1, Num 1, Num 1] \<and>
   len_df example_missing_table = 6 \<and>
   make_features_and_target column_evaluator example_single_model example_missing_table =
     (Inl (AssertionError [''affinity'']), []) \<and>
   decoy_strategy example_single_model = Some example_decoys \<and>
   fst (fit_final_predictor column_evaluator example_single_model example_missing_hits
          (component_models example_single_model)) = Inl (AssertionError [''affinity'']) \<and>
   column example_unlabelled_table ''hit'' = Inr [Num 1, Null, Num 0] \<and>
   make_features_and_target column_evaluator example_single_model example_unlabelled_table =
     (Inr ([(''affinity'', [Num 8, Num 1])], [Num 1, Num 0]), [Warning_dropped_rows [1]])"
proof -
  have cols: "has_column example_missing_table ''peptide''" "has_column example_missing_table ''hit''"
    and len: "len_df example_missing_table = 6"
    by (simp_all add: has_column_def example_missing_table_def len_df_def)
  have fe: "feature_expressions example_single_model = [''affinity'']"
    and ds: "decoy_strategy example_single_model = Some example_decoys"
    by (simp_all add: example_single_model_def example_model_def)
  note aff = example_missing_table_affinity
  from missing_values_stop_fitting [where T = example_missing_table
      and m = example_single_model and ev = column_evaluator, THEN conjunct1] cols fe aff len
  have fails: "make_features_and_target column_evaluator example_single_model example_missing_table =
       (Inl (AssertionError [''affinity'']), []) \<and>
     (\<forall>hits_df cms ds.
        decoy_strategy example_single_model = Some ds \<and>
        fst (predict_into cms (make_hits_and_decoys_df hits_df ds)) = Inr example_missing_table \<longrightarrow>
        fst (fit_final_predictor column_evaluator example_single_model hits_df cms) =
          Inl (AssertionError [''affinity'']))"
    by simp
  with ds example_missing_table_assembled
  have nofit: "fst (fit_final_predictor column_evaluator example_single_model example_missing_hits
          (component_models example_single_model)) = Inl (AssertionError [''affinity''])"
    by blast
  have hit: "column example_unlabelled_table ''hit'' = Inr [Num 1, Null, Num 0]"
    by (simp add: column_def example_unlabelled_table_def)
  have run: "make_features_and_target column_evaluator example_single_model example_unlabelled_table =
     (Inr ([(''affinity'', [Num 8, Num 1])], [Num 1, Num 0]), [Warning_dropped_rows [1]])"
    by (simp add: make_features_and_target_def has_column_def example_unlabelled_table_def
          evaluate_expressions_def example_single_model_def example_model_def
          column_evaluator_def len_df_def assert_no_null_def assign_series_def column_def
          assign_array_def drop_nulls_and_warn_def row_has_null_def df_row_def select_rows_def
          del_col_def Let_def upt_rec)
  from missing_values_stop_fitting [where T = example_unlabelled_table
      and m = example_single_model and ev = column_evaluator
      and x = "[(''affinity'', [Num 8, Num 1])]" and y = "[Num 1, Num 0]"
      and evs = "[Warning_dropped_rows [1]]" and hit = "[Num 1, Null, Num 0]",
      THEN conjunct2] run hit
  have "[Num 1, Num 0] = filter (\<lambda>v. v \<noteq> Null) [Num 1, Null, Num 0]" by blast
  with cols fe aff len fails ds nofit hit run show ?thesis by blast
qed


section \<open>Saving and restoring: the round trip\<close>

lemma component_outputs_cong:
  "map predict_cm cms1 = map predict_cm cms2 \<Longrightarrow>
   component_outputs cms1 peptides_df df = component_outputs cms2 peptides_df df"
proof (induction cms1 arbitrary: cms2 df)
  case Nil
  then show ?case by simp
next
  case (Cons c cms1)
  then obtain c' cms2' where c': "cms2 = c' # cms2'" "predict_cm c = predict_cm c'"
    "map predict_cm cms1 = map predict_cm cms2'" by (cases cms2) auto
  show ?case
    using Cons.IH [OF c'(3)] c'(1,2) by (simp split: sum.splits)
qed

lemma fold_features_cong:
  "feature_expressions m1 = feature_expressions m2 \<Longrightarrow>
   map predict_cm cms1 = map predict_cm cms2 \<Longrightarrow>
   fold_features ev m1 cms1 peptides_df = fold_features ev m2 cms2 peptides_df"
proof -
  assume fe: "feature_expressions m1 = feature_expressions m2"
    and pc: "map predict_cm cms1 = map predict_cm cms2"
  have ee: "\<And>df. evaluate_expressions ev m1 df = evaluate_expressions ev m2 df"
    using fe by (simp add: evaluate_expressions_def)
  show ?thesis
    by (simp add: fold_features_def ee component_outputs_cong [OF pc] split: sum.splits)
qed

lemma predict_loop_cong:
  assumes "feature_expressions m1 = feature_expressions m2"
    and "map snd pairs1 = map snd pairs2"
    and "map (\<lambda>pr. map predict_cm (fst pr)) pairs1 = map (\<lambda>pr. map predict_cm (fst pr)) pairs2"
  shows "predict_loop ev m1 peptides_df pairs1 i acc = predict_loop ev m2 peptides_df pairs2 i acc"
  using assms(2,3)
proof (induction pairs1 arbitrary: pairs2 i acc)
  case Nil
  then show ?case by simp
next
  case (Cons pr pairs1)
  obtain cms1 p1 where pr: "pr = (cms1, p1)" by (cases pr)
  from Cons.prems obtain cms2 rest where p2: "pairs2 = (cms2, p1) # rest"
    "map predict_cm cms1 = map predict_cm cms2"
    "map snd pairs1 = map snd rest"
    "map (\<lambda>pr. map predict_cm (fst pr)) pairs1 = map (\<lambda>pr. map predict_cm (fst pr)) rest"
    using pr by (cases pairs2) auto
  have ff: "fold_features ev m1 cms1 peptides_df = fold_features ev m2 cms2 peptides_df"
    using assms(1) p2(2) by (rule fold_features_cong)
  show ?case
    using Cons.IH [OF p2(3,4)] by (simp add: pr p2(1) ff Let_def split: sum.splits)
qed

lemma predict_cong:
  assumes "has_been_fit m1 = has_been_fit m2"
    and "feature_expressions m1 = feature_expressions m2"
    and "presentation_models_predictors m1 = presentation_models_predictors m2"
    and "trained_component_models m1 = Some tcm1"
    and "trained_component_models m2 = Some tcm2"
    and "map (map predict_cm) tcm1 = map (map predict_cm) tcm2"
  shows "predict ev m1 peptides_df = predict ev m2 peptides_df"
proof -
  from assms(6) have len: "length tcm1 = length tcm2" by (metis length_map)
  have loop: "\<And>ps. length ps = length tcm1 \<Longrightarrow>
      predict_loop ev m1 peptides_df (zip tcm1 ps) 0 [] =
      predict_loop ev m2 peptides_df (zip tcm2 ps) 0 []"
  proof -
    fix ps :: "fitted_predictor list" assume l: "length ps = length tcm1"
    have "map snd (zip tcm1 ps) = map snd (zip tcm2 ps)"
      using l len by simp
    moreover have "map (\<lambda>pr. map predict_cm (fst pr)) (zip tcm1 ps) =
                   map (\<lambda>pr. map predict_cm (fst pr)) (zip tcm2 ps)"
    proof -
      have "map (\<lambda>pr. map predict_cm (fst pr)) (zip tcm1 ps) = map (map predict_cm) tcm1"
        using l by (intro nth_equalityI) auto
      moreover have "map (\<lambda>pr. map predict_cm (fst pr)) (zip tcm2 ps) = map (map predict_cm) tcm2"
        using l len by (intro nth_equalityI) auto
      ultimately show ?thesis using assms(6) by simp
    qed
    ultimately show "predict_loop ev m1 peptides_df (zip tcm1 ps) 0 [] =
      predict_loop ev m2 peptides_df (zip tcm2 ps) 0 []"
      using assms(2) by (intro predict_loop_cong)
  qed
  have "predict_to_df ev m1 peptides_df = predict_to_df ev m2 peptides_df"
  proof (cases "presentation_models_predictors m2")
    case None
    with assms show ?thesis by (simp add: predict_to_df_def)
  next
    case (Some ps)
    show ?thesis
    proof (cases "length ps = length tcm1")
      case True
      with assms(1,3,4,5) Some len loop [OF True] show ?thesis
        by (simp add: predict_to_df_def)
    next
      case False
      with assms(1,3,4,5) Some len show ?thesis
        by (simp add: predict_to_df_def)
    qed
  qed
  with assms(1) show ?thesis by (simp add: predict_def)
qed

text \<open>
  C9: let \<open>M\<close> be a fit model that stores as many folds as its configuration says (2
  if the component models require fitting, otherwise 1), each with one trained model per
  component model, as \<^verbatim>\<open>fit\<close> leaves it; let \<open>M'\<close> be an unfit model with the same
  component models, feature expressions and fitting requirement. If restoring a component
  model from the fit of a trained one gives a model that predicts as the trained one does
  (the component models' own round trip), then \<^verbatim>\<open>get_fit\<close> on \<open>M\<close> returns a fit
  dictionary with which \<^verbatim>\<open>restore_fit\<close> on \<open>M'\<close> succeeds without a warning, and the
  restored model predicts on every table exactly what \<open>M\<close> predicts.
\<close>

theorem restore_fit_get_fit_round_trip:
  assumes "has_been_fit M"
    and "trained_component_models M = Some tcm"
    and "length tcm = (if component_models_require_fitting M then 2 else 1)"
    and "\<forall>models \<in> set tcm. length models = length (component_models M)"
    and "\<not> has_been_fit M'"
    and "component_models M' = component_models M"
    and "feature_expressions M' = feature_expressions M"
    and "component_models_require_fitting M' = component_models_require_fitting M"
    and "\<forall>models \<in> set tcm. \<forall>i < length models.
           predict_cm (clone_and_restore_fit (component_models M ! i) (get_fit_cm (models ! i))) =
           predict_cm (models ! i)"
  shows "\<exists>art M''. get_fit M = Inr art \<and> restore_fit M' art = (Inr (), M'', []) \<and>
           has_been_fit M'' \<and>
           (\<forall>ev peptides_df. predict ev M'' peptides_df = predict ev M peptides_df)"
proof -
  from assms(1) obtain experiments where ex: "fit_experiments M = Some experiments"
    by (auto simp: has_been_fit_def)
  let ?fits = "map (\<lambda>models. map (\<lambda>component_model. get_fit_cm component_model) models) tcm"
  let ?art = "\<lparr>fit_trained_component_model_fits = Some ?fits,
               fit_presentation_models_predictors = Some (presentation_models_predictors M),
               fit_fit_experiments = Some experiments,
               fit_feature_expressions = Some (feature_expressions M),
               fit_unhandled = []\<rparr>"
  let ?tcm' = "map (\<lambda>fold_fits. map (\<lambda>(sub_model, sub_model_fit).
                                        clone_and_restore_fit sub_model sub_model_fit)
                                   (zip (component_models M') fold_fits)) ?fits"
  let ?M'' = "M'\<lparr>presentation_models_predictors := presentation_models_predictors M,
                 fit_experiments := Some experiments,
                 trained_component_models := Some ?tcm'\<rparr>"
  have g: "get_fit M = Inr ?art"
    using assms(1,2) ex by (simp add: get_fit_def)
  have r: "restore_fit M' ?art = (Inr (), ?M'', [])"
    using assms(3,5,7,8) by (simp add: restore_fit_def Let_def)
  have fitted: "has_been_fit ?M''" by (simp add: has_been_fit_def)
  have same: "map (map predict_cm) ?tcm' = map (map predict_cm) tcm"
  proof (rule nth_equalityI)
    show "length (map (map predict_cm) ?tcm') = length (map (map predict_cm) tcm)" by simp
  next
    fix k assume "k < length (map (map predict_cm) ?tcm')"
    then have k: "k < length tcm" by simp
    then have mem: "tcm ! k \<in> set tcm" by simp
    with assms(4) have lk: "length (tcm ! k) = length (component_models M)" by blast
    have "map predict_cm (map (\<lambda>(sub_model, sub_model_fit).
                                 clone_and_restore_fit sub_model sub_model_fit)
                            (zip (component_models M) (map get_fit_cm (tcm ! k)))) =
          map predict_cm (tcm ! k)"
    proof (rule nth_equalityI)
      show "length (map predict_cm (map (\<lambda>(sub_model, sub_model_fit).
                                 clone_and_restore_fit sub_model sub_model_fit)
                            (zip (component_models M) (map get_fit_cm (tcm ! k))))) =
            length (map predict_cm (tcm ! k))"
        using lk by simp
    next
      fix i assume "i < length (map predict_cm (map (\<lambda>(sub_model, sub_model_fit).
                                 clone_and_restore_fit sub_model sub_model_fit)
                            (zip (component_models M) (map get_fit_cm (tcm ! k)))))"
      then have i: "i < length (tcm ! k)" using lk by simp
      with assms(9) mem have
        "predict_cm (clone_and_restore_fit (component_models M ! i) (get_fit_cm ((tcm ! k) ! i))) =
         predict_cm ((tcm ! k) ! i)" by blast
      with i lk show "map predict_cm (map (\<lambda>(sub_model, sub_model_fit).
                                 clone_and_restore_fit sub_model sub_model_fit)
                            (zip (component_models M) (map get_fit_cm (tcm ! k)))) ! i =
            map predict_cm (tcm ! k) ! i"
        by simp
    qed
    with k show "map (map predict_cm) ?tcm' ! k = map (map predict_cm) tcm ! k"
      by (simp add: assms(6))
  qed
  have "\<forall>ev peptides_df. predict ev ?M'' peptides_df = predict ev M peptides_df"
  proof (intro allI)
    fix ev peptides_df
    show "predict ev ?M'' peptides_df = predict ev M peptides_df"
    proof (rule predict_cong [where ?tcm1.0 = ?tcm' and ?tcm2.0 = tcm])
      show "has_been_fit ?M'' = has_been_fit M" using fitted assms(1) by simp
      show "feature_expressions ?M'' = feature_expressions M" using assms(7) by simp
      show "presentation_models_predictors ?M'' = presentation_models_predictors M" by simp
      show "trained_component_models ?M'' = Some ?tcm'" by simp
      show "trained_component_models M = Some tcm" by (rule assms(2))
      show "map (map predict_cm) ?tcm' = map (map predict_cm) tcm" by (rule same)
    qed
  qed
  with g r fitted show ?thesis by blast
qed

theorem restore_fit_get_fit_round_trip_witness:
  "(\<exists>evs. fit example_splitter column_evaluator example_model example_hits =
            (Inr (), example_two_fold_model, evs)) \<and>
   has_been_fit example_two_fold_model \<and>
   trained_component_models example_two_fold_model =
     Some [[example_component ''affinity'' True 2], [example_component ''affinity'' True 3]] \<and>
   component_models_require_fitting example_two_fold_model \<and>
   \<not> has_been_fit example_model \<and>
   component_models example_model = component_models example_two_fold_model \<and>
   feature_expressions example_model = feature_expressions example_two_fold_model \<and>
   (\<exists>art M''. get_fit example_two_fold_model = Inr art \<and>
      restore_fit example_model art = (Inr (), M'', []) \<and>
      has_been_fit M'' \<and>
      predict column_evaluator M'' example_hits =
        Inr [(10 / 16 + 11 / 15) / 2, (11 / 17 + 12 / 16) / 2, (11 / 17 + 12 / 16) / 2,
             (11 / 17 + 12 / 16) / 2, (12 / 18 + 13 / 17) / 2])"
proof -
  let ?M = example_two_fold_model
  let ?tcm = "[[example_component ''affinity'' True 2], [example_component ''affinity'' True (3::rat)]]"
  obtain evs where f: "fit example_splitter column_evaluator example_model example_hits =
            (Inr (), ?M, evs)"
    using example_fit_result by blast
  have sp: "component_models_require_fitting example_model \<longrightarrow>
           (\<exists>labels split1 split2. column example_hits ''experiment_name'' = Inr labels \<and>
              example_splitter (random_state example_model) labels = Inr [split1, split2])"
    by (simp add: example_splitter_def example_hits_def column_def)
  from fit_establishes_fit_state [OF f sp]
  have fitted: "has_been_fit ?M"
    and cms: "component_models ?M = component_models example_model"
    and fe: "feature_expressions ?M = feature_expressions example_model"
    and rf: "component_models_require_fitting ?M = component_models_require_fitting example_model"
    by auto
  have tcm: "trained_component_models ?M = Some ?tcm"
    and crf: "component_models_require_fitting ?M"
    and unfit: "\<not> has_been_fit example_model"
    by (simp_all add: example_two_fold_model_def example_model_def has_been_fit_def)
  have len: "length ?tcm = (if component_models_require_fitting ?M then 2 else 1)"
    using crf by simp
  have lens: "\<forall>models \<in> set ?tcm. length models = length (component_models ?M)"
    by (simp add: example_two_fold_model_def example_model_def)
  have contract: "\<forall>models \<in> set ?tcm. \<forall>i < length models.
           predict_cm (clone_and_restore_fit (component_models ?M ! i) (get_fit_cm (models ! i))) =
           predict_cm (models ! i)"
    by (simp add: example_two_fold_model_def example_model_def)
  from restore_fit_get_fit_round_trip [OF fitted tcm len lens unfit cms [symmetric]
      fe [symmetric] rf [symmetric] contract]
  obtain art M'' where rt: "get_fit ?M = Inr art" "restore_fit example_model art = (Inr (), M'', [])"
    "has_been_fit M''"
    "\<forall>ev peptides_df. predict ev M'' peptides_df = predict ev ?M peptides_df"
    by blast
  have "predict column_evaluator ?M example_hits =
        Inr [(10 / 16 + 11 / 15) / 2, (11 / 17 + 12 / 16) / 2, (11 / 17 + 12 / 16) / 2,
             (11 / 17 + 12 / 16) / 2, (12 / 18 + 13 / 17) / 2]"
    by (simp add: example_two_fold_model_def example_model_def example_hits_def predict_unfold
          digit_string_1 digit_string_2 mean_axis0_def)
  with rt have pr: "predict column_evaluator M'' example_hits =
        Inr [(10 / 16 + 11 / 15) / 2, (11 / 17 + 12 / 16) / 2, (11 / 17 + 12 / 16) / 2,
             (11 / 17 + 12 / 16) / 2, (12 / 18 + 13 / 17) / 2]" by simp
  have "\<exists>art M''. get_fit ?M = Inr art \<and>
      restore_fit example_model art = (Inr (), M'', []) \<and>
      has_been_fit M'' \<and>
      predict column_evaluator M'' example_hits =
        Inr [(10 / 16 + 11 / 15) / 2, (11 / 17 + 12 / 16) / 2, (11 / 17 + 12 / 16) / 2,
             (11 / 17 + 12 / 16) / 2, (12 / 18 + 13 / 17) / 2]"
    using rt(1,2,3) pr by (intro exI conjI)
  moreover have "\<exists>evs. fit example_splitter column_evaluator example_model example_hits =
            (Inr (), ?M, evs)" using f by (rule exI)
  ultimately show ?thesis using fitted tcm crf unfit cms fe by simp
qed

section \<open>Two-fold fitting: what is fit on and what is predicted on\<close>

lemma assign_all_append:
  "assign_all df (a @ b) =
     (case assign_all df a of Inl e \<Rightarrow> Inl e | Inr df' \<Rightarrow> assign_all df' b)"
  by (induction df a rule: assign_all.induct) (auto split: sum.splits)

lemma predict_into_calls:
  "predict_into cms df = (r, evs) \<Longrightarrow> e \<in> set evs \<Longrightarrow>
   \<exists>sm T' outs. e = Call_predict sm T' \<and> sm \<in> set cms \<and> assign_all df outs = Inr T'"
proof (induction cms arbitrary: df r evs)
  case Nil
  then show ?case by simp
next
  case (Cons sub_model rest)
  have here: "\<exists>sm T' outs. Call_predict sub_model df = Call_predict sm T' \<and>
                sm \<in> set (sub_model # rest) \<and> assign_all df outs = Inr T'"
    by (intro exI [of _ sub_model] exI [of _ df] exI [of _ "[]"]) simp
  show ?case
  proof (cases "assign_all df (predict_cm sub_model df)")
    case (Inl err)
    with Cons.prems have "e = Call_predict sub_model df" by auto
    with here show ?thesis by simp
  next
    case (Inr df')
    obtain r' evs' where p: "predict_into rest df' = (r', evs')"
      by (cases "predict_into rest df'") auto
    with Cons.prems Inr have "e = Call_predict sub_model df \<or> e \<in> set evs'" by auto
    then show ?thesis
    proof
      assume "e = Call_predict sub_model df"
      with here show ?thesis by simp
    next
      assume "e \<in> set evs'"
      from Cons.IH [OF p this] obtain sm T' outs where
        t: "e = Call_predict sm T'" "sm \<in> set rest" "assign_all df' outs = Inr T'" by blast
      have "assign_all df (predict_cm sub_model df @ outs) = Inr T'"
        using Inr t(3) by (simp add: assign_all_append)
      with t(1,2) show ?thesis
        by (intro exI [of _ sm] exI [of _ T'] exI [of _ "predict_cm sub_model df @ outs"]) simp
    qed
  qed
qed

lemma make_features_and_target_events:
  "make_features_and_target ev m T = (r, evs) \<Longrightarrow> e \<in> set evs \<Longrightarrow>
   \<exists>rows. e = Warning_dropped_rows rows"
  by (auto simp: make_features_and_target_def drop_nulls_and_warn_def Let_def
        split: if_splits sum.splits prod.splits)

lemma fit_final_predictor_calls:
  assumes "fit_final_predictor ev m hits_df cms = (r, evs)"
  shows "(\<forall>cm T. Call_clone_and_fit cm T \<notin> set evs) \<and>
         (\<forall>sm T'. Call_predict sm T' \<in> set evs \<longrightarrow>
            sm \<in> set cms \<and>
            (\<exists>ds outs. decoy_strategy m = Some ds \<and>
               assign_all (make_hits_and_decoys_df hits_df ds) outs = Inr T'))"
proof (cases "decoy_strategy m")
  case None
  with assms show ?thesis by (simp add: fit_final_predictor_def)
next
  case (Some ds)
  obtain r1 evs1 where p: "predict_into cms (make_hits_and_decoys_df hits_df ds) = (r1, evs1)"
    by (cases "predict_into cms (make_hits_and_decoys_df hits_df ds)") auto
  note calls = predict_into_calls [OF p]
  show ?thesis
  proof (cases r1)
    case (Inl e)
    with assms Some p have "evs = evs1" by (simp add: fit_final_predictor_def)
    with calls Some show ?thesis by fastforce
  next
    case (Inr T)
    obtain r2 evs2 where f: "make_features_and_target ev m T = (r2, evs2)"
      by (cases "make_features_and_target ev m T") auto
    note warns = make_features_and_target_events [OF f]
    from assms Some p Inr f have "evs = evs1 @ evs2"
      by (auto simp: fit_final_predictor_def split: sum.splits)
    with calls warns Some show ?thesis by fastforce
  qed
qed


text \<open>The two assertions at the head of the two-fold loop: an empty fold stops the fit.\<close>

lemma fit_fold_rejects_empty_fold:
  "fold1 = [] \<or> fold2 = [] \<Longrightarrow>
   fit_fold ev m hits_df (fold1, fold2) = (Inl (AssertionError []), m, [])"
  by (auto simp: fit_fold_def)

lemma fit_fold_decoy_strategy:
  "fit_fold ev m hits_df folds = (r, m', evs) \<Longrightarrow>
   decoy_strategy m' = decoy_strategy m \<and> component_models m' = component_models m"
  by (auto simp: fit_fold_def Let_def split: prod.splits if_splits sum.splits option.splits)

lemma fit_fold_calls:
  assumes "fit_fold ev m hits_df (fold1, fold2) = (r, m', evs)"
  shows "fold_calls (component_models m) (decoy_strategy m) hits_df fold1 fold2 evs"
proof (cases "fold1 \<noteq> [] \<and> fold2 \<noteq> []")
  case False
  with assms have "evs = []" by (auto simp: fit_fold_def split: if_splits)
  then show ?thesis by (simp add: fold_calls_def)
next
  case ne: True
  show ?thesis
  proof (cases "iloc hits_df fold1")
    case (Inl e)
    with assms ne have "evs = []" by (auto simp: fit_fold_def)
    then show ?thesis by (simp add: fold_calls_def)
  next
    case (Inr training)
    then have in1: "list_all (\<lambda>i. i < len_df hits_df) fold1" "training = select_rows hits_df fold1"
      by (auto simp: iloc_def split: if_splits)
    show ?thesis
    proof (cases "trained_component_models m")
      case None
      with assms ne Inr have "evs = []" by (auto simp: fit_fold_def)
      then show ?thesis by (simp add: fold_calls_def)
    next
      case (Some tcm)
      let ?sub = "map (\<lambda>sub_model. clone_and_fit sub_model training) (component_models m)"
      let ?calls = "map (\<lambda>sub_model. Call_clone_and_fit sub_model training) (component_models m)"
      let ?m = "m\<lparr>trained_component_models := Some (tcm @ [?sub])\<rparr>"
      show ?thesis
      proof (cases "iloc hits_df fold2")
        case (Inl e)
        with assms ne Inr Some have "evs = ?calls" by (auto simp: fit_fold_def Let_def)
        with in1 show ?thesis by (auto simp: fold_calls_def)
      next
        case final: (Inr final_hits_df)
        then have in2: "list_all (\<lambda>i. i < len_df hits_df) fold2"
          "final_hits_df = select_rows hits_df fold2"
          by (auto simp: iloc_def split: if_splits)
        obtain r1 evs1 where f: "fit_final_predictor ev ?m final_hits_df ?sub = (r1, evs1)"
          by (cases "fit_final_predictor ev ?m final_hits_df ?sub") auto
        from assms ne Inr Some final f have evs: "evs = ?calls @ evs1"
          by (auto simp: fit_fold_def Let_def split: sum.splits option.splits)
        from fit_final_predictor_calls [OF f] have
          c1: "\<forall>cm T. Call_clone_and_fit cm T \<notin> set evs1" and
          c2: "\<forall>sm T'. Call_predict sm T' \<in> set evs1 \<longrightarrow>
                 sm \<in> set ?sub \<and>
                 (\<exists>ds outs. decoy_strategy m = Some ds \<and>
                    assign_all (make_hits_and_decoys_df final_hits_df ds) outs = Inr T')"
          by auto
        have fitted: "\<And>sm. sm \<in> set ?sub \<Longrightarrow>
                 \<exists>cm. Call_clone_and_fit cm training \<in> set ?calls \<and> sm = clone_and_fit cm training"
          by auto
        have a: "\<forall>cm T. Call_clone_and_fit cm T \<in> set evs \<longrightarrow>
                   cm \<in> set (component_models m) \<and> T = select_rows hits_df fold1 \<and>
                   list_all (\<lambda>i. i < len_df hits_df) fold1"
          unfolding evs using in1 c1 by auto
        have b: "\<forall>sm T'. Call_predict sm T' \<in> set evs \<longrightarrow>
                   list_all (\<lambda>i. i < len_df hits_df) fold1 \<and>
                   list_all (\<lambda>i. i < len_df hits_df) fold2 \<and>
                   (\<exists>cm. Call_clone_and_fit cm (select_rows hits_df fold1) \<in> set evs \<and>
                      sm = clone_and_fit cm (select_rows hits_df fold1)) \<and>
                   (\<exists>d outs. decoy_strategy m = Some d \<and>
                      assign_all (make_hits_and_decoys_df (select_rows hits_df fold2) d) outs =
                        Inr T')"
        proof (intro allI impI)
          fix sm T' assume "Call_predict sm T' \<in> set evs"
          then have "Call_predict sm T' \<in> set evs1" unfolding evs by auto
          with c2 have sm: "sm \<in> set ?sub" and
            t: "\<exists>ds outs. decoy_strategy m = Some ds \<and>
                  assign_all (make_hits_and_decoys_df final_hits_df ds) outs = Inr T'"
            by auto
          from fitted [OF sm] obtain cm where
            "Call_clone_and_fit cm training \<in> set ?calls" "sm = clone_and_fit cm training"
            by blast
          then have "\<exists>cm. Call_clone_and_fit cm (select_rows hits_df fold1) \<in> set evs \<and>
                      sm = clone_and_fit cm (select_rows hits_df fold1)"
            unfolding evs in1(2) by auto
          with in1(1) in2 t show
            "list_all (\<lambda>i. i < len_df hits_df) fold1 \<and>
             list_all (\<lambda>i. i < len_df hits_df) fold2 \<and>
             (\<exists>cm. Call_clone_and_fit cm (select_rows hits_df fold1) \<in> set evs \<and>
                sm = clone_and_fit cm (select_rows hits_df fold1)) \<and>
             (\<exists>d outs. decoy_strategy m = Some d \<and>
                assign_all (make_hits_and_decoys_df (select_rows hits_df fold2) d) outs =
                  Inr T')"
            by simp
        qed
        from a b show ?thesis unfolding fold_calls_def by simp
      qed
    qed
  qed
qed

lemma fit_folds_calls:
  "fit_folds ev m hits_df splits = (r, m', evs) \<Longrightarrow>
   \<exists>logs. evs = concat logs \<and> length logs \<le> length splits \<and>
     (r = Inr () \<longrightarrow> length logs = length splits) \<and>
     (\<forall>k < length logs.
        fold_calls (component_models m) (decoy_strategy m) hits_df
          (fst (splits ! k)) (snd (splits ! k)) (logs ! k))"
proof (induction splits arbitrary: m r m' evs)
  case Nil
  then have "evs = concat []" by simp
  then show ?case by (intro exI [of _ "[]"]) simp
next
  case (Cons folds rest)
  obtain r1 m1 e1 where a: "fit_fold ev m hits_df folds = (r1, m1, e1)"
    by (cases "fit_fold ev m hits_df folds") auto
  have fc: "fold_calls (component_models m) (decoy_strategy m) hits_df (fst folds) (snd folds) e1"
    using fit_fold_calls [of ev m hits_df "fst folds" "snd folds" r1 m1 e1] a by simp
  show ?case
  proof (cases r1)
    case (Inl e)
    with Cons.prems a have "evs = concat [e1]" "r = Inl e" by simp_all
    with fc show ?thesis by (intro exI [of _ "[e1]"]) simp
  next
    case (Inr u)
    obtain r2 m2 e2 where b: "fit_folds ev m1 hits_df rest = (r2, m2, e2)"
      by (cases "fit_folds ev m1 hits_df rest") auto
    from Cons.IH [OF b] fit_fold_decoy_strategy [OF a] obtain logs where
      logs: "e2 = concat logs" "length logs \<le> length rest"
        "r2 = Inr () \<longrightarrow> length logs = length rest"
        "\<forall>k < length logs.
           fold_calls (component_models m) (decoy_strategy m) hits_df
             (fst (rest ! k)) (snd (rest ! k)) (logs ! k)"
      by auto
    from Cons.prems a Inr b have res: "evs = concat (e1 # logs)" "r = r2"
      using logs(1) by simp_all
    have "\<forall>k < length (e1 # logs).
           fold_calls (component_models m) (decoy_strategy m) hits_df
             (fst ((folds # rest) ! k)) (snd ((folds # rest) ! k)) ((e1 # logs) ! k)"
      using fc logs(4) by (auto simp: nth_Cons split: nat.splits)
    with res logs(2,3) show ?thesis by (intro exI [of _ "e1 # logs"]) simp
  qed
qed

lemma select_rows_values: "df \<noteq> [] \<Longrightarrow> df_values (select_rows df idx) = map (df_row df) idx"
proof -
  assume ne: "df \<noteq> []"
  then have len: "len_df (select_rows df idx) = length idx"
    by (cases df) (auto simp: len_df_def select_rows_def)
  have row: "\<And>i. i < length idx \<Longrightarrow> df_row (select_rows df idx) i = df_row df (idx ! i)"
    by (simp add: df_row_def select_rows_def split_def o_def)
  have "df_values (select_rows df idx) =
          map (\<lambda>i. df_row (select_rows df idx) i) [0..<length idx]"
    by (simp add: df_values_def len)
  also have "\<dots> = map (\<lambda>i. df_row df (idx ! i)) [0..<length idx]"
    by (rule map_cong [OF refl]) (simp add: row)
  also have "\<dots> = map (df_row df) idx"
    by (rule nth_equalityI) simp_all
  finally show ?thesis .
qed

lemma disjoint_positions_disjoint_rows:
  assumes "df \<noteq> []" and "distinct (df_values df)"
    and "list_all (\<lambda>i. i < len_df df) fold1" and "list_all (\<lambda>i. i < len_df df) fold2"
    and "set fold1 \<inter> set fold2 = {}"
  shows "set (df_values (select_rows df fold1)) \<inter> set (df_values (select_rows df fold2)) = {}"
proof -
  from assms(2) have inj: "inj_on (df_row df) {0..<len_df df}"
    by (simp add: df_values_def distinct_map)
  have "set fold1 \<subseteq> {0..<len_df df}" "set fold2 \<subseteq> {0..<len_df df}"
    using assms(3,4) by (auto simp: list_all_iff)
  with inj assms(5) have "df_row df ` set fold1 \<inter> df_row df ` set fold2 = {}"
    by (metis inj_on_image_Int image_empty)
  then show ?thesis by (simp add: select_rows_values [OF assms(1)])
qed


lemma map_of_keyed: "map_of (map (\<lambda>c. (c, f c)) cols) c = (if c \<in> set cols then Some (f c) else None)"
  by (induction cols) auto

lemma map_of_concat_df:
  "c \<in> set (map fst a) \<Longrightarrow>
   map_of (concat_df a b) c =
     Some ((case map_of a c of Some vs \<Rightarrow> vs | None \<Rightarrow> replicate (len_df a) Null) @
           (case map_of b c of Some vs \<Rightarrow> vs | None \<Rightarrow> replicate (len_df b) Null))"
  unfolding concat_df_def by (subst map_of_keyed) simp

lemma hits_and_decoys_hit_rows:
  assumes "distinct (map fst H)"
  shows "column (make_hits_and_decoys_df H ds) ''hit'' =
           Inr (replicate (len_df H) (Num 1) @
                replicate (len_df (ds (assign_scalar H ''hit'' (Num 1)))) (Num 0))"
    and "\<forall>(c, vs) \<in> set H. c \<noteq> ''hit'' \<longrightarrow>
           (\<exists>ws. column (make_hits_and_decoys_df H ds) c = Inr (vs @ ws))"
proof -
  let ?a = "assign_scalar H ''hit'' (Num 1)"
  let ?b = "assign_scalar (ds ?a) ''hit'' (Num 0)"
  have cols: "set (map fst ?a) = insert ''hit'' (set (map fst H))"
    by (auto simp: assign_scalar_def set_col_columns)
  show "column (make_hits_and_decoys_df H ds) ''hit'' =
           Inr (replicate (len_df H) (Num 1) @ replicate (len_df (ds ?a)) (Num 0))"
  proof -
    have "''hit'' \<in> set (map fst ?a)" using cols by simp
    from map_of_concat_df [OF this, of ?b] show ?thesis
      by (simp add: make_hits_and_decoys_df_def Let_def column_def assign_scalar_def map_of_set_col)
  qed
  show "\<forall>(c, vs) \<in> set H. c \<noteq> ''hit'' \<longrightarrow>
           (\<exists>ws. column (make_hits_and_decoys_df H ds) c = Inr (vs @ ws))"
  proof (clarify)
    fix c vs assume m: "(c, vs) \<in> set H" "c \<noteq> ''hit''"
    with assms have "map_of H c = Some vs" by simp
    with m(2) have a: "map_of ?a c = Some vs"
      by (simp add: assign_scalar_def map_of_set_col_other)
    from m(1) cols have "c \<in> set (map fst ?a)" by force
    from map_of_concat_df [OF this, of ?b] a
    show "\<exists>ws. column (make_hits_and_decoys_df H ds) c = Inr (vs @ ws)"
      by (simp add: make_hits_and_decoys_df_def Let_def column_def)
  qed
qed

text \<open>
  C5, as the code has it: in two-fold mode, when the splitter's train and test positions
  of each split are disjoint, the log of \<^verbatim>\<open>fit\<close> is made of one log per fold. In the log of a
  fold, every \<^verbatim>\<open>clone_and_fit\<close> is called on a component model of the presentation model
  with the hits at the split's train positions; every model that is asked to predict (to
  train the fold's final predictor) is one that a \<^verbatim>\<open>clone_and_fit\<close> of this same fold
  has returned, and the table it is given is the hits-and-decoys table assembled from the
  hits at the split's test positions by the model's decoy strategy, with predicted columns
  assigned. So the rows fit on and the hit rows predicted on lie at disjoint positions of
  the hits table, and when the rows of the hits table are pairwise distinct, no row that the
  component models of a fold were fit on is among the hit rows they are asked to predict on.
\<close>

theorem two_fold_no_leakage:
  assumes "component_models_require_fitting m"
    and "ensemble_size m = None \<or> ensemble_size m = Some 0"
    and "column hits_df ''experiment_name'' = Inr labels"
    and "skf (random_state m) labels = Inr splits"
    and "\<forall>(fold1, fold2) \<in> set splits. set fold1 \<inter> set fold2 = {}"
    and "fit skf ev m hits_df = (r, m', evs)"
  shows "\<exists>logs. evs = concat logs \<and> length logs \<le> length splits \<and>
           (r = Inr () \<longrightarrow> length logs = length splits) \<and>
           (\<forall>k < length logs. \<forall>fold1 fold2 cm T sm T'. splits ! k = (fold1, fold2) \<longrightarrow>
              (Call_clone_and_fit cm T \<in> set (logs ! k) \<longrightarrow>
                 cm \<in> set (component_models m) \<and> T = select_rows hits_df fold1) \<and>
              (Call_predict sm T' \<in> set (logs ! k) \<longrightarrow>
                 (\<exists>cm'. Call_clone_and_fit cm' (select_rows hits_df fold1) \<in> set (logs ! k) \<and>
                    sm = clone_and_fit cm' (select_rows hits_df fold1)) \<and>
                 (\<exists>ds outs. decoy_strategy m = Some ds \<and>
                    assign_all (make_hits_and_decoys_df (select_rows hits_df fold2) ds) outs =
                      Inr T') \<and>
                 (distinct (df_values hits_df) \<longrightarrow>
                    set (df_values (select_rows hits_df fold1)) \<inter>
                    set (df_values (select_rows hits_df fold2)) = {})))"
proof -
  let ?P = "\<lambda>logs. evs = concat logs \<and> length logs \<le> length splits \<and>
           (r = Inr () \<longrightarrow> length logs = length splits) \<and>
           (\<forall>k < length logs.
              fold_calls (component_models m) (decoy_strategy m) hits_df
                (fst (splits ! k)) (snd (splits ! k)) (logs ! k))"
  have ne: "hits_df \<noteq> []" using assms(3) by (auto simp: column_def)
  have "\<exists>logs. ?P logs"
  proof (cases "has_been_fit m \<or> \<not> has_column hits_df ''experiment_name'' \<or>
                \<not> has_column hits_df ''peptide'' \<or> trained_component_models m \<noteq> None \<or>
                presentation_models_predictors m \<noteq> None")
    case True
    with assms(6) have "evs = []" "r \<noteq> Inr ()" by (auto simp: fit_def split: if_splits)
    then have "?P []" by simp
    then show ?thesis ..
  next
    case False
    let ?m = "m\<lparr>fit_experiments := Some (set labels),
                 trained_component_models := Some [], presentation_models_predictors := Some []\<rparr>"
    obtain r2 m2 e2 where g: "fit_folds ev ?m hits_df splits = (r2, m2, e2)"
      by (cases "fit_folds ev ?m hits_df splits") auto
    from fit_folds_calls [OF g] obtain logs where
      logs: "e2 = concat logs" "length logs \<le> length splits"
        "r2 = Inr () \<longrightarrow> length logs = length splits"
        "\<forall>k < length logs.
           fold_calls (component_models m) (decoy_strategy m) hits_df
             (fst (splits ! k)) (snd (splits ! k)) (logs ! k)"
      by auto
    have "evs = e2 \<and> (r = Inr () \<longrightarrow> r2 = Inr ())"
    proof (cases r2)
      case (Inl e)
      with assms(1-4,6) False g show ?thesis by (auto simp: fit_def Let_def)
    next
      case (Inr u)
      with assms(1-4,6) False g have "fit_finish m2 e2 = (r, m', evs)"
        by (auto simp: fit_def Let_def)
      with Inr show ?thesis
        by (auto simp: fit_finish_def split: option.splits if_splits)
    qed
    with logs have "?P logs" by simp
    then show ?thesis ..
  qed
  then obtain logs where P: "?P logs" ..
  have "(\<forall>k < length logs. \<forall>fold1 fold2 cm T sm T'. splits ! k = (fold1, fold2) \<longrightarrow>
              (Call_clone_and_fit cm T \<in> set (logs ! k) \<longrightarrow>
                 cm \<in> set (component_models m) \<and> T = select_rows hits_df fold1) \<and>
              (Call_predict sm T' \<in> set (logs ! k) \<longrightarrow>
                 (\<exists>cm'. Call_clone_and_fit cm' (select_rows hits_df fold1) \<in> set (logs ! k) \<and>
                    sm = clone_and_fit cm' (select_rows hits_df fold1)) \<and>
                 (\<exists>ds outs. decoy_strategy m = Some ds \<and>
                    assign_all (make_hits_and_decoys_df (select_rows hits_df fold2) ds) outs =
                      Inr T') \<and>
                 (distinct (df_values hits_df) \<longrightarrow>
                    set (df_values (select_rows hits_df fold1)) \<inter>
                    set (df_values (select_rows hits_df fold2)) = {})))"
  proof (intro allI impI)
    fix k fold1 fold2 cm T sm T'
    assume k: "k < length logs" and sk: "splits ! k = (fold1, fold2)"
    from P k have "fold_calls (component_models m) (decoy_strategy m) hits_df
        (fst (splits ! k)) (snd (splits ! k)) (logs ! k)" by blast
    with sk have fc: "fold_calls (component_models m) (decoy_strategy m) hits_df fold1 fold2
        (logs ! k)" by simp
    from P k have "k < length splits" by linarith
    then have "splits ! k \<in> set splits" by simp
    with assms(5) sk have dis: "set fold1 \<inter> set fold2 = {}" by auto
    have 1: "Call_clone_and_fit cm T \<in> set (logs ! k) \<longrightarrow>
                 cm \<in> set (component_models m) \<and> T = select_rows hits_df fold1"
      using fc by (simp add: fold_calls_def)
    have 2: "Call_predict sm T' \<in> set (logs ! k) \<longrightarrow>
                 (\<exists>cm'. Call_clone_and_fit cm' (select_rows hits_df fold1) \<in> set (logs ! k) \<and>
                    sm = clone_and_fit cm' (select_rows hits_df fold1)) \<and>
                 (\<exists>ds outs. decoy_strategy m = Some ds \<and>
                    assign_all (make_hits_and_decoys_df (select_rows hits_df fold2) ds) outs =
                      Inr T') \<and>
                 (distinct (df_values hits_df) \<longrightarrow>
                    set (df_values (select_rows hits_df fold1)) \<inter>
                    set (df_values (select_rows hits_df fold2)) = {})"
    proof
      assume a: "Call_predict sm T' \<in> set (logs ! k)"
      with fc have in12: "list_all (\<lambda>i. i < len_df hits_df) fold1"
          "list_all (\<lambda>i. i < len_df hits_df) fold2"
        and fitted: "\<exists>cm'. Call_clone_and_fit cm' (select_rows hits_df fold1) \<in> set (logs ! k) \<and>
                    sm = clone_and_fit cm' (select_rows hits_df fold1)"
        and table: "\<exists>ds outs. decoy_strategy m = Some ds \<and>
                    assign_all (make_hits_and_decoys_df (select_rows hits_df fold2) ds) outs =
                      Inr T'"
        by (simp_all add: fold_calls_def)
      have "distinct (df_values hits_df) \<longrightarrow>
                    set (df_values (select_rows hits_df fold1)) \<inter>
                    set (df_values (select_rows hits_df fold2)) = {}"
        using in12 dis ne by (simp add: disjoint_positions_disjoint_rows)
      with fitted table show
         "(\<exists>cm'. Call_clone_and_fit cm' (select_rows hits_df fold1) \<in> set (logs ! k) \<and>
                    sm = clone_and_fit cm' (select_rows hits_df fold1)) \<and>
                 (\<exists>ds outs. decoy_strategy m = Some ds \<and>
                    assign_all (make_hits_and_decoys_df (select_rows hits_df fold2) ds) outs =
                      Inr T') \<and>
                 (distinct (df_values hits_df) \<longrightarrow>
                    set (df_values (select_rows hits_df fold1)) \<inter>
                    set (df_values (select_rows hits_df fold2)) = {})"
        by (intro conjI)
    qed
    from 1 2 show "(Call_clone_and_fit cm T \<in> set (logs ! k) \<longrightarrow>
                 cm \<in> set (component_models m) \<and> T = select_rows hits_df fold1) \<and>
              (Call_predict sm T' \<in> set (logs ! k) \<longrightarrow>
                 (\<exists>cm'. Call_clone_and_fit cm' (select_rows hits_df fold1) \<in> set (logs ! k) \<and>
                    sm = clone_and_fit cm' (select_rows hits_df fold1)) \<and>
                 (\<exists>ds outs. decoy_strategy m = Some ds \<and>
                    assign_all (make_hits_and_decoys_df (select_rows hits_df fold2) ds) outs =
                      Inr T') \<and>
                 (distinct (df_values hits_df) \<longrightarrow>
                    set (df_values (select_rows hits_df fold1)) \<inter>
                    set (df_values (select_rows hits_df fold2)) = {}))"
      by (intro conjI)
  qed
  with P show ?thesis by blast
qed

theorem two_fold_no_leakage_witness:
  "component_models_require_fitting example_model \<and>
   ensemble_size example_model = None \<and>
   column example_hits ''experiment_name'' =
     Inr [Str ''e1'', Str ''e1'', Str ''e1'', Str ''e2'', Str ''e2''] \<and>
   example_splitter (random_state example_model)
     [Str ''e1'', Str ''e1'', Str ''e1'', Str ''e2'', Str ''e2''] =
     Inr [([1, 4], [0, 2, 3]), ([0, 2, 3], [1, 4])] \<and>
   set [1::nat, 4] \<inter> set [0, 2, 3] = {} \<and>
   distinct (df_values example_hits) \<and>
   fit example_splitter column_evaluator example_model example_hits =
     (Inr (), example_two_fold_model,
      [Call_clone_and_fit (example_component ''affinity'' True 0)
         (select_rows example_hits [1, 4]),
       Call_predict (example_component ''affinity'' True 2)
         (make_hits_and_decoys_df (select_rows example_hits [0, 2, 3]) example_decoys),
       Call_clone_and_fit (example_component ''affinity'' True 0)
         (select_rows example_hits [0, 2, 3]),
       Call_predict (example_component ''affinity'' True 3)
         (make_hits_and_decoys_df (select_rows example_hits [1, 4]) example_decoys)]) \<and>
   (\<exists>logs.
      [Call_clone_and_fit (example_component ''affinity'' True 0)
         (select_rows example_hits [1, 4]),
       Call_predict (example_component ''affinity'' True 2)
         (make_hits_and_decoys_df (select_rows example_hits [0, 2, 3]) example_decoys),
       Call_clone_and_fit (example_component ''affinity'' True 0)
         (select_rows example_hits [0, 2, 3]),
       Call_predict (example_component ''affinity'' True 3)
         (make_hits_and_decoys_df (select_rows example_hits [1, 4]) example_decoys)] =
        concat logs \<and>
      length logs = 2) \<and>
   clone_and_fit (example_component ''affinity'' True 0) (select_rows example_hits [1, 4]) =
     example_component ''affinity'' True 2 \<and>
   clone_and_fit (example_component ''affinity'' True 0) (select_rows example_hits [0, 2, 3]) =
     example_component ''affinity'' True 3 \<and>
   set (df_values (select_rows example_hits [1, 4])) \<inter>
     set (df_values (select_rows example_hits [0, 2, 3])) = {}"
proof -
  let ?splits = "[([1::nat, 4], [0, 2, 3::nat]), ([0, 2, 3], [1, 4])]"
  let ?labels = "[Str ''e1'', Str ''e1'', Str ''e1'', Str ''e2'', Str ''e2'']"
  have rf: "component_models_require_fitting example_model"
    and es: "ensemble_size example_model = None"
    by (simp_all add: example_model_def)
  have labels: "column example_hits ''experiment_name'' = Inr ?labels"
    by (simp add: example_hits_def column_def)
  have sp: "example_splitter (random_state example_model) ?labels = Inr ?splits"
    by (simp add: example_splitter_def)
  have dis1: "set [1::nat, 4] \<inter> set [0, 2, 3] = {}"
    by simp
  have dis: "\<forall>(fold1, fold2) \<in> set ?splits. set fold1 \<inter> set fold2 = {}"
    by simp
  have rows: "distinct (df_values example_hits)"
    by (simp add: df_values_def df_row_def example_hits_def len_df_def upt_rec)
  from two_fold_no_leakage [OF rf disjI1 [OF es] labels sp dis example_fit_log]
  obtain logs where L:
    "[Call_clone_and_fit (example_component ''affinity'' True 0)
         (select_rows example_hits [1, 4]),
       Call_predict (example_component ''affinity'' True 2)
         (make_hits_and_decoys_df (select_rows example_hits [0, 2, 3]) example_decoys),
       Call_clone_and_fit (example_component ''affinity'' True 0)
         (select_rows example_hits [0, 2, 3]),
       Call_predict (example_component ''affinity'' True 3)
         (make_hits_and_decoys_df (select_rows example_hits [1, 4]) example_decoys)] =
        concat logs \<and> length logs \<le> length ?splits \<and>
     ((Inr () :: error + unit) = Inr () \<longrightarrow> length logs = length ?splits) \<and>
     (\<forall>k < length logs. \<forall>fold1 fold2 cm T sm T'. ?splits ! k = (fold1, fold2) \<longrightarrow>
              (Call_clone_and_fit cm T \<in> set (logs ! k) \<longrightarrow>
                 cm \<in> set (component_models example_model) \<and> T = select_rows example_hits fold1) \<and>
              (Call_predict sm T' \<in> set (logs ! k) \<longrightarrow>
                 (\<exists>cm'. Call_clone_and_fit cm' (select_rows example_hits fold1) \<in> set (logs ! k) \<and>
                    sm = clone_and_fit cm' (select_rows example_hits fold1)) \<and>
                 (\<exists>ds outs. decoy_strategy example_model = Some ds \<and>
                    assign_all (make_hits_and_decoys_df (select_rows example_hits fold2) ds) outs =
                      Inr T') \<and>
                 (distinct (df_values example_hits) \<longrightarrow>
                    set (df_values (select_rows example_hits fold1)) \<inter>
                    set (df_values (select_rows example_hits fold2)) = {})))"
    by (elim exE)
  from L have len: "length logs = 2" by simp
  from L have cat:
    "[Call_clone_and_fit (example_component ''affinity'' True 0)
         (select_rows example_hits [1, 4]),
       Call_predict (example_component ''affinity'' True 2)
         (make_hits_and_decoys_df (select_rows example_hits [0, 2, 3]) example_decoys),
       Call_clone_and_fit (example_component ''affinity'' True 0)
         (select_rows example_hits [0, 2, 3]),
       Call_predict (example_component ''affinity'' True 3)
         (make_hits_and_decoys_df (select_rows example_hits [1, 4]) example_decoys)] =
        concat logs" by (elim conjE)
  have ex: "\<exists>logs.
      [Call_clone_and_fit (example_component ''affinity'' True 0)
         (select_rows example_hits [1, 4]),
       Call_predict (example_component ''affinity'' True 2)
         (make_hits_and_decoys_df (select_rows example_hits [0, 2, 3]) example_decoys),
       Call_clone_and_fit (example_component ''affinity'' True 0)
         (select_rows example_hits [0, 2, 3]),
       Call_predict (example_component ''affinity'' True 3)
         (make_hits_and_decoys_df (select_rows example_hits [1, 4]) example_decoys)] =
        concat logs \<and>
      length logs = 2"
    using cat len by (intro exI [of _ logs] conjI)
  have fit1: "clone_and_fit (example_component ''affinity'' True 0)
                (select_rows example_hits [1, 4]) = example_component ''affinity'' True 2"
    by (simp add: select_rows_def example_hits_def len_df_def)
  have fit2: "clone_and_fit (example_component ''affinity'' True 0)
                (select_rows example_hits [0, 2, 3]) = example_component ''affinity'' True 3"
    by (simp add: select_rows_def example_hits_def len_df_def)
  have apart: "set (df_values (select_rows example_hits [1, 4])) \<inter>
     set (df_values (select_rows example_hits [0, 2, 3])) = {}"
    by (simp add: df_values_def df_row_def select_rows_def example_hits_def len_df_def upt_rec)
  from rf es labels sp dis1 rows example_fit_log ex fit1 fit2 apart show ?thesis
    by (intro conjI)
qed

text \<open>
  C5 in the specification's wording does not hold when a hit is recorded twice. In
  \<open>example_duplicate_hits\<close> the rows 0 and 1 are equal, and so are the rows 3 and 4, the
  two rows of experiment \<open>e2\<close>, of which a stratified two-fold split puts one in each
  fold. In the first fold the component model is fit on the rows 1 and 4, which read
  (\<open>e1\<close>, \<open>SIINFEKL\<close>) and (\<open>e2\<close>, \<open>KLGGALQAK\<close>), and the model that this returns is
  asked to predict on a table whose hit rows, the rows 0, 2 and 3, hold both; likewise in
  the second fold.
\<close>

theorem duplicate_hit_rows_counterexample:
  "example_splitter (random_state example_model)
     [Str ''e1'', Str ''e1'', Str ''e1'', Str ''e2'', Str ''e2''] =
     Inr [([1, 4], [0, 2, 3]), ([0, 2, 3], [1, 4])] \<and>
   fit example_splitter column_evaluator example_model example_duplicate_hits =
     (Inr (), example_two_fold_model,
      [Call_clone_and_fit (example_component ''affinity'' True 0)
         [(''experiment_name'', [Str ''e1'', Str ''e2'']),
          (''peptide'', [Str ''SIINFEKL'', Str ''KLGGALQAK''])],
       Call_predict (example_component ''affinity'' True 2)
         [(''experiment_name'',
             [Str ''e1'', Str ''e1'', Str ''e2'', Str ''e1'', Str ''e1'', Str ''e2'']),
          (''peptide'',
             [Str ''SIINFEKL'', Str ''NLVPMVATV'', Str ''KLGGALQAK'', Str ''A'', Str ''A'',
              Str ''A'']),
          (''hit'', [Num 1, Num 1, Num 1, Num 0, Num 0, Num 0])],
       Call_clone_and_fit (example_component ''affinity'' True 0)
         [(''experiment_name'', [Str ''e1'', Str ''e1'', Str ''e2'']),
          (''peptide'', [Str ''SIINFEKL'', Str ''NLVPMVATV'', Str ''KLGGALQAK''])],
       Call_predict (example_component ''affinity'' True 3)
         [(''experiment_name'', [Str ''e1'', Str ''e2'', Str ''e1'', Str ''e2'']),
          (''peptide'', [Str ''SIINFEKL'', Str ''KLGGALQAK'', Str ''A'', Str ''A'']),
          (''hit'', [Num 1, Num 1, Num 0, Num 0])]]) \<and>
   clone_and_fit (example_component ''affinity'' True 0)
     [(''experiment_name'', [Str ''e1'', Str ''e2'']),
      (''peptide'', [Str ''SIINFEKL'', Str ''KLGGALQAK''])] =
     example_component ''affinity'' True 2 \<and>
   df_values (select_rows example_duplicate_hits [1, 4]) =
     [[Str ''e1'', Str ''SIINFEKL''], [Str ''e2'', Str ''KLGGALQAK'']] \<and>
   df_values (select_rows example_duplicate_hits [0, 2, 3]) =
     [[Str ''e1'', Str ''SIINFEKL''], [Str ''e1'', Str ''NLVPMVATV''],
      [Str ''e2'', Str ''KLGGALQAK'']] \<and>
   set (df_values (select_rows example_duplicate_hits [1, 4])) \<inter>
     set (df_values (select_rows example_duplicate_hits [0, 2, 3])) =
     {[Str ''e1'', Str ''SIINFEKL''], [Str ''e2'', Str ''KLGGALQAK'']}"
proof -
  have sp: "example_splitter (random_state example_model)
     [Str ''e1'', Str ''e1'', Str ''e1'', Str ''e2'', Str ''e2''] =
     Inr [([1, 4], [0, 2, 3]), ([0, 2, 3], [1, 4])]"
    by (simp add: example_splitter_def)
  have run: "fit example_splitter column_evaluator example_model example_duplicate_hits =
     (Inr (), example_two_fold_model,
      [Call_clone_and_fit (example_component ''affinity'' True 0)
         [(''experiment_name'', [Str ''e1'', Str ''e2'']),
          (''peptide'', [Str ''SIINFEKL'', Str ''KLGGALQAK''])],
       Call_predict (example_component ''affinity'' True 2)
         [(''experiment_name'',
             [Str ''e1'', Str ''e1'', Str ''e2'', Str ''e1'', Str ''e1'', Str ''e2'']),
          (''peptide'',
             [Str ''SIINFEKL'', Str ''NLVPMVATV'', Str ''KLGGALQAK'', Str ''A'', Str ''A'',
              Str ''A'']),
          (''hit'', [Num 1, Num 1, Num 1, Num 0, Num 0, Num 0])],
       Call_clone_and_fit (example_component ''affinity'' True 0)
         [(''experiment_name'', [Str ''e1'', Str ''e1'', Str ''e2'']),
          (''peptide'', [Str ''SIINFEKL'', Str ''NLVPMVATV'', Str ''KLGGALQAK''])],
       Call_predict (example_component ''affinity'' True 3)
         [(''experiment_name'', [Str ''e1'', Str ''e2'', Str ''e1'', Str ''e2'']),
          (''peptide'', [Str ''SIINFEKL'', Str ''KLGGALQAK'', Str ''A'', Str ''A'']),
          (''hit'', [Num 1, Num 1, Num 0, Num 0])]])"
    by (simp add: fit_def example_model_def example_two_fold_model_def example_predictor_def
          example_unfold example_duplicate_hits_def eval_nat_numeral)
  have fitted: "clone_and_fit (example_component ''affinity'' True 0)
     [(''experiment_name'', [Str ''e1'', Str ''e2'']),
      (''peptide'', [Str ''SIINFEKL'', Str ''KLGGALQAK''])] =
     example_component ''affinity'' True 2"
    by (simp add: len_df_def)
  have train: "df_values (select_rows example_duplicate_hits [1, 4]) =
     [[Str ''e1'', Str ''SIINFEKL''], [Str ''e2'', Str ''KLGGALQAK'']]"
    by (simp add: df_values_def df_row_def select_rows_def example_duplicate_hits_def
          len_df_def upt_rec)
  have test: "df_values (select_rows example_duplicate_hits [0, 2, 3]) =
     [[Str ''e1'', Str ''SIINFEKL''], [Str ''e1'', Str ''NLVPMVATV''],
      [Str ''e2'', Str ''KLGGALQAK'']]"
    by (simp add: df_values_def df_row_def select_rows_def example_duplicate_hits_def
          len_df_def upt_rec)
  have both: "set (df_values (select_rows example_duplicate_hits [1, 4])) \<inter>
     set (df_values (select_rows example_duplicate_hits [0, 2, 3])) =
     {[Str ''e1'', Str ''SIINFEKL''], [Str ''e2'', Str ''KLGGALQAK'']}"
    unfolding train test by auto
  from sp run fitted train test both show ?thesis
    by (intro conjI)
qed


end
